theory Spec2Isabelle
  imports Complex_Main
begin

section \<open>Tensors, framework errors and the primitive operators\<close>

text \<open>
  The layers of \<^verbatim>\<open>lib/layers.py\<close> are compositions of operators of the tensor framework.
  A tensor is modelled by what the layers can observe and decide on: its \<open>shape\<close> (the
  list returned by \<^verbatim>\<open>x.size()\<close>) and its \<open>data\<close>, a term recording which operators
  produced it from the tensors handed in by the caller.  The floating-point numbers
  themselves are not modelled; all tensors are taken to be floating-point tensors on one
  device.  Every exception of the framework is a value on the left of a sum.  Sizes and
  channel counts are natural numbers; the theorems speak about tensors without an axis of
  size 0 and about positive channel counts.
\<close>

datatype error =
  TypeError | ValueError | RuntimeError | ZeroDivisionError | IndexError | NotImplementedError

definition ebind :: "error + 'a \<Rightarrow> ('a \<Rightarrow> error + 'b) \<Rightarrow> error + 'b" where
  "ebind m f = (case m of Inl e \<Rightarrow> Inl e | Inr v \<Rightarrow> f v)"

datatype activ = ReLU | LeakyReLU

record conv2d =
  in_channels :: nat
  out_channels :: nat
  kernel_size :: nat
  stride :: nat
  padding :: nat
  dilation :: nat
  groups :: nat
  bias :: bool

record linear =
  in_features :: nat
  out_features :: nat

datatype interp_arg = ScaleFactor nat | Size nat nat

datatype index = Colon | NoneIdx

datatype expr =
    Given nat
  | Conv2dOp conv2d expr
  | BatchNorm2dOp nat bool expr
  | ActivOp activ expr
  | Dropout2dOp rat expr
  | AdaptiveAvgPool2dOp nat nat expr
  | InterpolateOp interp_arg bool expr
  | CatOp nat "expr list"
  | CropOp nat nat nat nat expr
  | MeanOp "nat list" expr
  | MaxValuesOp nat expr
  | MaxIndicesOp nat expr
  | LinearOp linear expr
  | ReluOp expr
  | SigmoidOp expr
  | AddOp expr expr
  | MulOp expr expr
  | IndexOp "index list" expr

record tensor =
  shape :: "nat list"
  data :: expr

text \<open>
  \<^verbatim>\<open>nn.Conv2d(in_channels, out_channels, kernel_size, stride, padding, dilation, groups, bias)\<close>.
  The first argument is \<open>None\<close> at one call site of the file, so it is an option here.
  The constructor computes \<^verbatim>\<open>in_channels % groups\<close>, which raises \<open>TypeError\<close> on \<open>None\<close>.
\<close>

definition Conv2d_init ::
  "nat option \<Rightarrow> nat \<Rightarrow> nat \<Rightarrow> nat \<Rightarrow> nat \<Rightarrow> nat \<Rightarrow> nat \<Rightarrow> bool \<Rightarrow> error + conv2d" where
  "Conv2d_init nin nout ksize strd pad dil grp b =
     (if grp = 0 then Inl ValueError
      else case nin of
        None \<Rightarrow> Inl TypeError
      | Some i \<Rightarrow>
          if i mod grp \<noteq> 0 then Inl ValueError
          else if nout mod grp \<noteq> 0 then Inl ValueError
          else Inr \<lparr>in_channels = i, out_channels = nout, kernel_size = ksize, stride = strd,
                    padding = pad, dilation = dil, groups = grp, bias = b\<rparr>)"

text \<open>
  The output size of a convolution along one axis, for an input of size \<open>n\<close>:
  \<open>floor ((n + 2 * padding - dilation * (kernel_size - 1) - 1) / stride) + 1\<close>.
  The subtraction is on naturals; \<open>Conv2d_call\<close> uses it only where the padded input is at
  least as large as the dilated kernel.
\<close>

definition conv_out :: "conv2d \<Rightarrow> nat \<Rightarrow> nat" where
  "conv_out c n = (n + 2 * padding c - dilation c * (kernel_size c - 1) - 1) div stride c + 1"

definition kernel_extent :: "conv2d \<Rightarrow> nat" where
  "kernel_extent c = dilation c * (kernel_size c - 1) + 1"

text \<open>
  The forward pass of \<^verbatim>\<open>nn.Conv2d\<close> on a batched tensor (batch, channel, height, width).
  It raises when the channel count is not \<open>in_channels\<close> and when the dilated kernel is
  larger than the padded input.
\<close>

definition Conv2d_call :: "conv2d \<Rightarrow> tensor \<Rightarrow> error + tensor" where
  "Conv2d_call c x =
     (case shape x of
        [n, ci, h, w] \<Rightarrow>
          if kernel_size c = 0 \<or> stride c = 0 \<or> dilation c = 0 then Inl RuntimeError
          else if ci \<noteq> in_channels c then Inl RuntimeError
          else if h + 2 * padding c < kernel_extent c \<or> w + 2 * padding c < kernel_extent c
          then Inl RuntimeError
          else Inr \<lparr>shape = [n, out_channels c, conv_out c h, conv_out c w],
                    data = Conv2dOp c (data x)\<rparr>
      | _ \<Rightarrow> Inl RuntimeError)"

text \<open>
  In a grouped convolution the output channel \<open>o\<close> is computed from the input channels of
  its group only: group \<open>o div (out_channels / groups)\<close>, holding \<open>in_channels / groups\<close>
  consecutive input channels.
\<close>

definition conv_reads :: "conv2d \<Rightarrow> nat \<Rightarrow> nat list" where
  "conv_reads c o' =
     (let ipg = in_channels c div groups c;
          opg = out_channels c div groups c;
          g = o' div opg
      in [g * ipg ..< (g + 1) * ipg])"

text \<open>
  \<^verbatim>\<open>nn.BatchNorm2d(num_features)\<close>: per-channel statistics over the batch and the two
  spatial axes.  It accepts 4-dimensional input only; in training mode it refuses an input
  with a single value per channel; the channel count must be \<open>num_features\<close>.
\<close>

definition BatchNorm2d_call :: "bool \<Rightarrow> nat \<Rightarrow> tensor \<Rightarrow> error + tensor" where
  "BatchNorm2d_call training num_features x =
     (case shape x of
        [n, c, h, w] \<Rightarrow>
          if training \<and> n * h * w = 1 then Inl ValueError
          else if c \<noteq> num_features then Inl RuntimeError
          else Inr \<lparr>shape = shape x, data = BatchNorm2dOp num_features training (data x)\<rparr>
      | _ \<Rightarrow> Inl ValueError)"

definition Activ_call :: "activ \<Rightarrow> tensor \<Rightarrow> error + tensor" where
  "Activ_call a x = Inr \<lparr>shape = shape x, data = ActivOp a (data x)\<rparr>"

text \<open>\<^verbatim>\<open>nn.Dropout2d(p)\<close> zeroes whole channels in training mode and returns its input otherwise.\<close>

definition Dropout2d_call :: "bool \<Rightarrow> rat \<Rightarrow> tensor \<Rightarrow> error + tensor" where
  "Dropout2d_call training p x =
     (if training then Inr \<lparr>shape = shape x, data = Dropout2dOp p (data x)\<rparr> else Inr x)"

definition AdaptiveAvgPool2d_call :: "nat \<Rightarrow> nat \<Rightarrow> tensor \<Rightarrow> error + tensor" where
  "AdaptiveAvgPool2d_call oh ow x =
     (case shape x of
        [n, c, h, w] \<Rightarrow>
          if h = 0 \<or> w = 0 then Inl RuntimeError
          else Inr \<lparr>shape = [n, c, oh, ow], data = AdaptiveAvgPool2dOp oh ow (data x)\<rparr>
      | _ \<Rightarrow> Inl RuntimeError)"

text \<open>
  \<^verbatim>\<open>F.interpolate(x, scale_factor=.. or size=.., mode='bilinear', align_corners=..)\<close>.
  Bilinear mode needs 4-dimensional input; with a scale factor \<open>f\<close> the output size is
  \<open>floor (f * n)\<close> along each spatial axis, exactly \<open>f * n\<close> for an integer factor.
\<close>

definition interpolate_bilinear :: "interp_arg \<Rightarrow> bool \<Rightarrow> tensor \<Rightarrow> error + tensor" where
  "interpolate_bilinear arg align_corners x =
     (case shape x of
        [n, c, h, w] \<Rightarrow>
          (let (oh, ow) = (case arg of ScaleFactor f \<Rightarrow> (f * h, f * w) | Size sh sw \<Rightarrow> (sh, sw))
           in if h = 0 \<or> w = 0 \<or> oh = 0 \<or> ow = 0 then Inl RuntimeError
              else Inr \<lparr>shape = [n, c, oh, ow],
                        data = InterpolateOp arg align_corners (data x)\<rparr>)
      | _ \<Rightarrow> Inl NotImplementedError)"

text \<open>
  \<^verbatim>\<open>torch.cat(tensors, dim)\<close>: the tensors must agree in every axis but the given one, along which
  their sizes add up.
\<close>

definition cat :: "tensor list \<Rightarrow> nat \<Rightarrow> error + tensor" where
  "cat ts axis =
     (case ts of
        [] \<Rightarrow> Inl RuntimeError
      | t # rest \<Rightarrow>
          if length (shape t) \<le> axis then Inl IndexError
          else if list_all (\<lambda>u. length (shape u) = length (shape t)
                               \<and> (shape u)[axis := 0] = (shape t)[axis := 0]) rest
          then Inr \<lparr>shape = (shape t)[axis := sum_list (map (\<lambda>u. shape u ! axis) ts)],
                    data = CatOp axis (map data ts)\<rparr>
          else Inl RuntimeError)"

section \<open>Modules\<close>

text \<open>
  What the constructors of the file build.  \<open>Conv2DBNActiv l\<close> and
  \<open>SeperableConv2DBNActiv l\<close> are instances of the two classes of that name, \<open>l\<close> being their
  attribute \<^verbatim>\<open>conv\<close>; both classes define \<^verbatim>\<open>__call__\<close> as \<^verbatim>\<open>return self.conv(x)\<close>.
\<close>

datatype layer =
    Conv2d conv2d
  | BatchNorm2d nat
  | Activ activ
  | Dropout2d rat
  | AdaptiveAvgPool2d nat nat
  | Sequential "layer list"
  | Conv2DBNActiv layer
  | SeperableConv2DBNActiv layer

fun forward :: "bool \<Rightarrow> layer \<Rightarrow> tensor \<Rightarrow> error + tensor"
  and forward_seq :: "bool \<Rightarrow> layer list \<Rightarrow> tensor \<Rightarrow> error + tensor" where
  "forward training (Conv2d c) x = Conv2d_call c x"
| "forward training (BatchNorm2d n) x = BatchNorm2d_call training n x"
| "forward training (Activ a) x = Activ_call a x"
| "forward training (Dropout2d p) x = Dropout2d_call training p x"
| "forward training (AdaptiveAvgPool2d oh ow) x = AdaptiveAvgPool2d_call oh ow x"
| "forward training (Sequential ls) x = forward_seq training ls x"
| "forward training (Conv2DBNActiv l) x = forward training l x"
| "forward training (SeperableConv2DBNActiv l) x = forward training l x"
| "forward_seq training [] x = Inr x"
| "forward_seq training (l # ls) x =
     (case forward training l x of Inl e \<Rightarrow> Inl e | Inr y \<Rightarrow> forward_seq training ls y)"

subsection \<open>Conv2DBNActiv\<close>

definition Conv2DBNActiv_init ::
  "nat \<Rightarrow> nat \<Rightarrow> nat \<Rightarrow> nat \<Rightarrow> nat \<Rightarrow> nat \<Rightarrow> activ \<Rightarrow> error + layer" where
  "Conv2DBNActiv_init nin nout ksize strd pad dil act =
     ebind (Conv2d_init (Some nin) nout ksize strd pad dil 1 False) (\<lambda>c.
       Inr (Conv2DBNActiv (Sequential [Conv2d c, BatchNorm2d nout, Activ act])))"

text \<open>
  The signature gives every argument after \<^verbatim>\<open>nout\<close> a default:
  \<^verbatim>\<open>ksize=3, stride=1, pad=1, dilation=1, activ=nn.ReLU\<close>.  This is the call
  \<^verbatim>\<open>Conv2DBNActiv(nin, nout)\<close>.
\<close>

definition Conv2DBNActiv_init_defaults :: "nat \<Rightarrow> nat \<Rightarrow> error + layer" where
  "Conv2DBNActiv_init_defaults nin nout = Conv2DBNActiv_init nin nout 3 1 1 1 ReLU"

subsection \<open>SeperableConv2DBNActiv\<close>

definition SeperableConv2DBNActiv_init ::
  "nat \<Rightarrow> nat \<Rightarrow> nat \<Rightarrow> nat \<Rightarrow> nat \<Rightarrow> nat \<Rightarrow> activ \<Rightarrow> error + layer" where
  "SeperableConv2DBNActiv_init nin nout ksize strd pad dil act =
     ebind (Conv2d_init (Some nin) nin ksize strd pad dil nin False) (\<lambda>dw.
     ebind (Conv2d_init (Some nin) nout 1 1 0 1 1 False) (\<lambda>pw.
       Inr (SeperableConv2DBNActiv
              (Sequential [Conv2d dw, Conv2d pw, BatchNorm2d nout, Activ act]))))"

subsection \<open>Encoder\<close>

record Encoder =
  conv1 :: layer
  conv2 :: layer

definition Encoder_init ::
  "nat \<Rightarrow> nat \<Rightarrow> nat \<Rightarrow> nat \<Rightarrow> nat \<Rightarrow> activ \<Rightarrow> error + Encoder" where
  "Encoder_init nin nout ksize strd pad act =
     ebind (Conv2DBNActiv_init nin nout ksize 1 pad 1 act) (\<lambda>c1.
     ebind (Conv2DBNActiv_init nout nout ksize strd pad 1 act) (\<lambda>c2.
       Inr \<lparr>conv1 = c1, conv2 = c2\<rparr>))"

definition Encoder_call :: "bool \<Rightarrow> Encoder \<Rightarrow> tensor \<Rightarrow> error + tensor \<times> tensor" where
  "Encoder_call training m x =
     ebind (forward training (Encoder.conv1 m) x) (\<lambda>skip.
     ebind (forward training (Encoder.conv2 m) skip) (\<lambda>h.
       Inr (h, skip)))"

subsection \<open>Decoder\<close>

text \<open>
  Modelled from the spec: \<^verbatim>\<open>spec_utils.crop_center\<close>, which lives in a module of the
  repository outside the file at hand.  The spec describes it as accepting an oversized
  tensor and a reference tensor and returning the oversized tensor cropped to the
  reference's spatial dimensions, trimming symmetrically, the odd leftover pixel going to
  one side.  The spec says nothing about a tensor smaller than the reference; the model
  rejects it.
\<close>

definition crop_center :: "tensor \<Rightarrow> tensor \<Rightarrow> error + tensor" where
  "crop_center x ref =
     (case (shape x, shape ref) of
        ([n, c, h, w], [n', c', h', w']) \<Rightarrow>
          if h < h' \<or> w < w' then Inl ValueError
          else Inr \<lparr>shape = [n, c, h', w'],
                    data = CropOp ((h - h') div 2) ((w - w') div 2) h' w' (data x)\<rparr>
      | _ \<Rightarrow> Inl ValueError)"

record Decoder =
  conv :: layer
  dropout :: "layer option"

definition Decoder_init ::
  "nat \<Rightarrow> nat \<Rightarrow> nat \<Rightarrow> nat \<Rightarrow> nat \<Rightarrow> bool \<Rightarrow> error + Decoder" where
  "Decoder_init nin nout ksize strd pad with_dropout =
     ebind (Conv2DBNActiv_init nin nout ksize 1 pad 1 ReLU) (\<lambda>c.
       Inr \<lparr>conv = c, dropout = (if with_dropout then Some (Dropout2d (1 / 10)) else None)\<rparr>)"

text \<open>
  The first argument stands for \<^verbatim>\<open>spec_utils.crop_center\<close>, the one function the forward
  pass calls that the file does not define.
\<close>

definition Decoder_call ::
  "(tensor \<Rightarrow> tensor \<Rightarrow> error + tensor) \<Rightarrow> bool \<Rightarrow> Decoder \<Rightarrow> tensor \<Rightarrow> tensor option
     \<Rightarrow> error + tensor" where
  "Decoder_call crop training m x skip =
     ebind (interpolate_bilinear (ScaleFactor 2) True x) (\<lambda>x1.
     ebind (case skip of None \<Rightarrow> Inr x1 | Some s \<Rightarrow> crop x1 s) (\<lambda>x2.
     ebind (forward training (Decoder.conv m) x2) (\<lambda>h.
       case Decoder.dropout m of None \<Rightarrow> Inr h | Some d \<Rightarrow> forward training d h)))"

subsection \<open>DecoderV2\<close>

record DecoderV2 =
  conv1 :: layer
  conv2 :: layer
  dropout :: "layer option"



subsection \<open>ASPPModule\<close>

text \<open>Indexing a Python tuple: \<open>IndexError\<close> past its end.\<close>

definition tuple_getitem :: "'a list \<Rightarrow> nat \<Rightarrow> error + 'a" where
  "tuple_getitem xs i = (if i < length xs then Inr (xs ! i) else Inl IndexError)"

record ASPPModule =
  conv1 :: layer
  conv2 :: layer
  conv3 :: layer
  conv4 :: layer
  conv5 :: layer
  bottleneck :: layer

definition ASPPModule_init :: "nat \<Rightarrow> nat list \<Rightarrow> error + ASPPModule" where
  "ASPPModule_init nin dilations =
     ebind (Conv2DBNActiv_init nin nin 1 1 0 1 LeakyReLU) (\<lambda>b1.
     ebind (Conv2DBNActiv_init nin nin 1 1 0 1 LeakyReLU) (\<lambda>c2.
     ebind (tuple_getitem dilations 0) (\<lambda>d0.
     ebind (SeperableConv2DBNActiv_init nin nin 3 1 d0 d0 LeakyReLU) (\<lambda>c3.
     ebind (tuple_getitem dilations 1) (\<lambda>d1.
     ebind (SeperableConv2DBNActiv_init nin nin 3 1 d1 d1 LeakyReLU) (\<lambda>c4.
     ebind (tuple_getitem dilations 2) (\<lambda>d2.
     ebind (SeperableConv2DBNActiv_init nin nin 3 1 d2 d2 LeakyReLU) (\<lambda>c5.
     ebind (Conv2DBNActiv_init (nin * 5) nin 1 1 0 1 LeakyReLU) (\<lambda>bt.
       Inr \<lparr>conv1 = Sequential [AdaptiveAvgPool2d 1 1, b1], conv2 = c2, conv3 = c3,
            conv4 = c4, conv5 = c5,
            bottleneck = Sequential [bt, Dropout2d (1 / 10)]\<rparr>)))))))))"

text \<open>The call \<^verbatim>\<open>ASPPModule(nin)\<close> takes the default \<^verbatim>\<open>dilations=(4, 8, 16)\<close>.\<close>

definition ASPPModule_init_defaults :: "nat \<Rightarrow> error + ASPPModule" where
  "ASPPModule_init_defaults nin = ASPPModule_init nin [4, 8, 16]"

text \<open>Unpacking \<^verbatim>\<open>_, _, h, w = x.size()\<close> raises \<open>ValueError\<close> unless the tensor has four axes.\<close>

definition ASPPModule_forward :: "bool \<Rightarrow> ASPPModule \<Rightarrow> tensor \<Rightarrow> error + tensor" where
  "ASPPModule_forward training m x =
     (case shape x of
        [_, _, h, w] \<Rightarrow>
          ebind (forward training (ASPPModule.conv1 m) x) (\<lambda>pooled.
          ebind (interpolate_bilinear (Size h w) True pooled) (\<lambda>feat1.
          ebind (forward training (ASPPModule.conv2 m) x) (\<lambda>feat2.
          ebind (forward training (ASPPModule.conv3 m) x) (\<lambda>feat3.
          ebind (forward training (ASPPModule.conv4 m) x) (\<lambda>feat4.
          ebind (forward training (ASPPModule.conv5 m) x) (\<lambda>feat5.
          ebind (cat [feat1, feat2, feat3, feat4, feat5] 1) (\<lambda>out.
            forward training (ASPPModule.bottleneck m) out)))))))
      | _ \<Rightarrow> Inl ValueError)"

text \<open>Constructing the module and calling it once.\<close>

definition ASPPModule_run :: "bool \<Rightarrow> nat \<Rightarrow> nat list \<Rightarrow> tensor \<Rightarrow> error + tensor" where
  "ASPPModule_run training nin dilations x =
     ebind (ASPPModule_init nin dilations) (\<lambda>m. ASPPModule_forward training m x)"

subsection \<open>CBAM\<close>

text \<open>\<^verbatim>\<open>x.mean(dim=(..))\<close> removes the listed axes.\<close>

definition mean :: "tensor \<Rightarrow> nat list \<Rightarrow> error + tensor" where
  "mean x dims =
     (if list_all (\<lambda>d. d < length (shape x)) dims
      then Inr \<lparr>shape = map snd (filter (\<lambda>(i, _). i \<notin> set dims) (enumerate 0 (shape x))),
                data = MeanOp dims (data x)\<rparr>
      else Inl IndexError)"

text \<open>
  \<^verbatim>\<open>x.max(dim=..)\<close> takes a single integer axis and then returns the pair (values, indices);
  a tuple of axes is no accepted argument and raises \<open>TypeError\<close>.
\<close>

definition max_dims :: "tensor \<Rightarrow> nat list \<Rightarrow> error + tensor" where
  "max_dims x dims = Inl TypeError"

definition max_dim :: "tensor \<Rightarrow> nat \<Rightarrow> error + tensor \<times> tensor" where
  "max_dim x d =
     (if d < length (shape x)
      then (let sh = map snd (filter (\<lambda>(i, _). i \<noteq> d) (enumerate 0 (shape x)))
            in Inr (\<lparr>shape = sh, data = MaxValuesOp d (data x)\<rparr>,
                    \<lparr>shape = sh, data = MaxIndicesOp d (data x)\<rparr>))
      else Inl IndexError)"

text \<open>
  Indexing with slices \<^verbatim>\<open>:\<close> and \<^verbatim>\<open>None\<close>: a slice keeps an axis, \<^verbatim>\<open>None\<close> inserts an axis
  of size 1.  A tensor accepts such an index; a Python tuple (the pair returned by
  \<^verbatim>\<open>max\<close>) does not and raises \<open>TypeError\<close>.
\<close>

fun index_shape :: "index list \<Rightarrow> nat list \<Rightarrow> nat list option" where
  "index_shape [] sh = Some sh"
| "index_shape (NoneIdx # is) sh = map_option ((#) 1) (index_shape is sh)"
| "index_shape (Colon # is) [] = None"
| "index_shape (Colon # is) (d # sh) = map_option ((#) d) (index_shape is sh)"

definition getitem :: "tensor \<Rightarrow> index list \<Rightarrow> error + tensor" where
  "getitem x is =
     (case index_shape is (shape x) of
        None \<Rightarrow> Inl IndexError
      | Some sh \<Rightarrow> Inr \<lparr>shape = sh, data = IndexOp is (data x)\<rparr>)"

definition pair_getitem :: "tensor \<times> tensor \<Rightarrow> index list \<Rightarrow> error + tensor" where
  "pair_getitem p is = Inl TypeError"

text \<open>Elementwise arithmetic broadcasts the two shapes, aligned at the last axis.\<close>

fun broadcast_rev :: "nat list \<Rightarrow> nat list \<Rightarrow> nat list option" where
  "broadcast_rev [] bs = Some bs"
| "broadcast_rev (a # as) [] = Some (a # as)"
| "broadcast_rev (a # as) (b # bs) =
     (if a = b \<or> b = 1 then map_option ((#) a) (broadcast_rev as bs)
      else if a = 1 then map_option ((#) b) (broadcast_rev as bs)
      else None)"

definition broadcast :: "nat list \<Rightarrow> nat list \<Rightarrow> nat list option" where
  "broadcast as bs = map_option rev (broadcast_rev (rev as) (rev bs))"

definition add :: "tensor \<Rightarrow> tensor \<Rightarrow> error + tensor" where
  "add x y =
     (case broadcast (shape x) (shape y) of
        None \<Rightarrow> Inl RuntimeError
      | Some sh \<Rightarrow> Inr \<lparr>shape = sh, data = AddOp (data x) (data y)\<rparr>)"

definition mul :: "tensor \<Rightarrow> tensor \<Rightarrow> error + tensor" where
  "mul x y =
     (case broadcast (shape x) (shape y) of
        None \<Rightarrow> Inl RuntimeError
      | Some sh \<Rightarrow> Inr \<lparr>shape = sh, data = MulOp (data x) (data y)\<rparr>)"

definition relu :: "tensor \<Rightarrow> tensor" where
  "relu x = \<lparr>shape = shape x, data = ReluOp (data x)\<rparr>"

definition sigmoid :: "tensor \<Rightarrow> tensor" where
  "sigmoid x = \<lparr>shape = shape x, data = SigmoidOp (data x)\<rparr>"

definition Linear_init :: "nat \<Rightarrow> nat \<Rightarrow> error + linear" where
  "Linear_init nin nout = Inr \<lparr>in_features = nin, out_features = nout\<rparr>"

definition Linear_call :: "linear \<Rightarrow> tensor \<Rightarrow> error + tensor" where
  "Linear_call l x =
     (if shape x = [] \<or> last (shape x) \<noteq> in_features l then Inl RuntimeError
      else Inr \<lparr>shape = butlast (shape x) @ [out_features l], data = LinearOp l (data x)\<rparr>)"

record CBAM =
  sqz :: linear
  ext :: linear
  conv :: layer

text \<open>\<^verbatim>\<open>ch // ratio\<close> raises \<open>ZeroDivisionError\<close> for a zero ratio.\<close>

definition CBAM_init :: "nat \<Rightarrow> nat \<Rightarrow> error + CBAM" where
  "CBAM_init ch ratio =
     (if ratio = 0 then Inl ZeroDivisionError
      else
        ebind (Linear_init ch (ch div ratio)) (\<lambda>l1.
        ebind (Linear_init (ch div ratio) ch) (\<lambda>l2.
        ebind (Conv2d_init None 1 3 1 1 1 1 False) (\<lambda>c.
          Inr \<lparr>sqz = l1, ext = l2, conv = Conv2d c\<rparr>))))"

definition CBAM_call :: "bool \<Rightarrow> CBAM \<Rightarrow> tensor \<Rightarrow> error + tensor" where
  "CBAM_call training m x =
     ebind (mean x [2, 3]) (\<lambda>gap.
     ebind (max_dims x [2, 3]) (\<lambda>gmp.
     ebind (ebind (Linear_call (sqz m) gap) (\<lambda>t. Linear_call (ext m) (relu t))) (\<lambda>gap.
     ebind (ebind (Linear_call (sqz m) gmp) (\<lambda>t. Linear_call (ext m) (relu t))) (\<lambda>gmp.
     ebind (add gap gmp) (\<lambda>s.
     ebind (getitem (sigmoid s) [Colon, Colon, NoneIdx, NoneIdx]) (\<lambda>ca.
     ebind (mul ca x) (\<lambda>x.
     ebind (ebind (mean x [1]) (\<lambda>t. getitem t [Colon, NoneIdx])) (\<lambda>gap.
     ebind (ebind (max_dim x 1) (\<lambda>p. pair_getitem p [Colon, NoneIdx])) (\<lambda>gmp.
     ebind (ebind (cat [gap, gmp] 1) (forward training (CBAM.conv m))) (\<lambda>h.
       mul (sigmoid h) x))))))))))"

text \<open>Constructing the module and calling it once.\<close>

definition CBAM_run :: "bool \<Rightarrow> nat \<Rightarrow> nat \<Rightarrow> tensor \<Rightarrow> error + tensor" where
  "CBAM_run training ch ratio x = ebind (CBAM_init ch ratio) (\<lambda>m. CBAM_call training m x)"

section \<open>Basic facts about the primitives\<close>

lemma ebind_Inr [simp]: "ebind (Inr v) f = f v"
  by (simp add: ebind_def)

lemma ebind_Inl [simp]: "ebind (Inl e) f = Inl e"
  by (simp add: ebind_def)

lemma ebind_eq_Inr: "ebind m f = Inr y \<longleftrightarrow> (\<exists>v. m = Inr v \<and> f v = Inr y)"
  by (cases m) simp_all

lemma Conv2DBNActiv_init_eq:
  "Conv2DBNActiv_init nin nout ksize strd pad dil act =
     Inr (Conv2DBNActiv (Sequential
       [Conv2d \<lparr>in_channels = nin, out_channels = nout, kernel_size = ksize, stride = strd,
                padding = pad, dilation = dil, groups = 1, bias = False\<rparr>,
        BatchNorm2d nout, Activ act]))"
  by (simp add: Conv2DBNActiv_init_def Conv2d_init_def)

lemma Conv2d_call_eq_Inr:
  "Conv2d_call c x = Inr y \<longleftrightarrow>
     (\<exists>n h w. shape x = [n, in_channels c, h, w]
        \<and> 0 < kernel_size c \<and> 0 < stride c \<and> 0 < dilation c
        \<and> kernel_extent c \<le> h + 2 * padding c \<and> kernel_extent c \<le> w + 2 * padding c
        \<and> y = \<lparr>shape = [n, out_channels c, conv_out c h, conv_out c w],
                data = Conv2dOp c (data x)\<rparr>)"
  by (auto simp: Conv2d_call_def split: list.splits)

lemma BatchNorm2d_call_eq_Inr:
  "BatchNorm2d_call training nf x = Inr y \<longleftrightarrow>
     (\<exists>n h w. shape x = [n, nf, h, w] \<and> \<not> (training \<and> n * h * w = 1)
        \<and> y = \<lparr>shape = shape x, data = BatchNorm2dOp nf training (data x)\<rparr>)"
  by (auto simp: BatchNorm2d_call_def split: list.splits)

lemma forward_seq_Cons_eq_Inr:
  "forward_seq training (l # ls) x = Inr y \<longleftrightarrow>
     (\<exists>z. forward training l x = Inr z \<and> forward_seq training ls z = Inr y)"
  by (cases "forward training l x") simp_all

lemma conv_block_eq_Inr:
  "forward training (Conv2DBNActiv (Sequential [Conv2d c, BatchNorm2d nout, Activ act])) x = Inr y
   \<longleftrightarrow>
     (\<exists>n h w. shape x = [n, in_channels c, h, w]
        \<and> 0 < kernel_size c \<and> 0 < stride c \<and> 0 < dilation c
        \<and> kernel_extent c \<le> h + 2 * padding c \<and> kernel_extent c \<le> w + 2 * padding c
        \<and> out_channels c = nout
        \<and> \<not> (training \<and> n * conv_out c h * conv_out c w = 1)
        \<and> y = \<lparr>shape = [n, nout, conv_out c h, conv_out c w],
                data = ActivOp act (BatchNorm2dOp nout training (Conv2dOp c (data x)))\<rparr>)"
  unfolding forward.simps forward_seq_Cons_eq_Inr Conv2d_call_eq_Inr BatchNorm2d_call_eq_Inr
    Activ_call_def
  by (auto simp: mult.assoc)


lemma conv_block_total:
  assumes "shape x = [n, in_channels c, h, w]"
    and "0 < kernel_size c" and "0 < stride c" and "0 < dilation c"
    and "kernel_extent c \<le> h + 2 * padding c" and "kernel_extent c \<le> w + 2 * padding c"
    and "out_channels c = nout"
    and "\<not> (training \<and> n * conv_out c h * conv_out c w = 1)"
  shows "forward training (Conv2DBNActiv (Sequential [Conv2d c, BatchNorm2d nout, Activ act])) x =
           Inr \<lparr>shape = [n, nout, conv_out c h, conv_out c w],
                data = ActivOp act (BatchNorm2dOp nout training (Conv2dOp c (data x)))\<rparr>"
  using assms unfolding conv_block_eq_Inr by blast

section \<open>Conv2DBNActiv\<close>

text \<open>
  Claim C6.  A block built by \<open>Conv2DBNActiv_init nin nout ksize strd pad dil act\<close> returns on
  a non-empty input exactly when the input is a 4-axis tensor with \<open>nin\<close> channels, kernel size,
  stride and dilation are positive, the dilated kernel fits into the padded input, and (in
  training mode) the batch normalisation sees more than one value per channel.  The result
  is then the activation of the batch normalisation over \<open>nout\<close> channels of a convolution
  without bias, with exactly the configured kernel size, stride, padding and dilation; it
  has \<open>nout\<close> channels and its height and width are
  \<open>(size + 2 * pad - dil * (ksize - 1) - 1) div strd + 1\<close>.  Built with the defaults of the
  signature, the activation is the rectified linear unit.
\<close>

theorem Conv2DBNActiv_conv_bn_activ:
  assumes "Conv2DBNActiv_init nin nout ksize strd pad dil act = Inr m"
    and "0 < nin" and "0 < nout" and "0 \<notin> set (shape x)"
  shows "(forward training m x = Inr y \<longleftrightarrow>
     (\<exists>n h w. shape x = [n, nin, h, w]
        \<and> 0 < ksize \<and> 0 < strd \<and> 0 < dil
        \<and> dil * (ksize - 1) + 1 \<le> h + 2 * pad \<and> dil * (ksize - 1) + 1 \<le> w + 2 * pad
        \<and> \<not> (training \<and> n * ((h + 2 * pad - dil * (ksize - 1) - 1) div strd + 1)
                            * ((w + 2 * pad - dil * (ksize - 1) - 1) div strd + 1) = 1)
        \<and> y = \<lparr>shape = [n, nout, (h + 2 * pad - dil * (ksize - 1) - 1) div strd + 1,
                                  (w + 2 * pad - dil * (ksize - 1) - 1) div strd + 1],
                data = ActivOp act (BatchNorm2dOp nout training (Conv2dOp
                  \<lparr>in_channels = nin, out_channels = nout, kernel_size = ksize, stride = strd,
                   padding = pad, dilation = dil, groups = 1, bias = False\<rparr> (data x)))\<rparr>))
    \<and> (\<exists>c. Conv2DBNActiv_init_defaults nin nout =
              Inr (Conv2DBNActiv (Sequential [Conv2d c, BatchNorm2d nout, Activ ReLU])))"
proof -
  have m: "m = Conv2DBNActiv (Sequential
       [Conv2d \<lparr>in_channels = nin, out_channels = nout, kernel_size = ksize, stride = strd,
                padding = pad, dilation = dil, groups = 1, bias = False\<rparr>,
        BatchNorm2d nout, Activ act])"
    using assms by (simp add: Conv2DBNActiv_init_eq)
  have "\<exists>c. Conv2DBNActiv_init_defaults nin nout =
              Inr (Conv2DBNActiv (Sequential [Conv2d c, BatchNorm2d nout, Activ ReLU]))"
    by (simp add: Conv2DBNActiv_init_defaults_def Conv2DBNActiv_init_eq)
  then show ?thesis
    unfolding m conv_block_eq_Inr by (simp add: conv_out_def kernel_extent_def)
qed

theorem Conv2DBNActiv_conv_bn_activ_witness:
  "Conv2DBNActiv_init 2 4 3 2 1 1 ReLU =
     Inr (Conv2DBNActiv (Sequential
       [Conv2d \<lparr>in_channels = 2, out_channels = 4, kernel_size = 3, stride = 2,
                padding = 1, dilation = 1, groups = 1, bias = False\<rparr>,
        BatchNorm2d 4, Activ ReLU]))
   \<and> forward True (Conv2DBNActiv (Sequential
       [Conv2d \<lparr>in_channels = 2, out_channels = 4, kernel_size = 3, stride = 2,
                padding = 1, dilation = 1, groups = 1, bias = False\<rparr>,
        BatchNorm2d 4, Activ ReLU])) \<lparr>shape = [1, 2, 8, 8], data = Given 0\<rparr> =
     Inr \<lparr>shape = [1, 4, 4, 4],
          data = ActivOp ReLU (BatchNorm2dOp 4 True (Conv2dOp
                  \<lparr>in_channels = 2, out_channels = 4, kernel_size = 3, stride = 2,
                   padding = 1, dilation = 1, groups = 1, bias = False\<rparr> (Given 0)))\<rparr>"
proof -
  have h: "Conv2DBNActiv_init 2 4 3 2 1 1 ReLU =
     Inr (Conv2DBNActiv (Sequential
       [Conv2d \<lparr>in_channels = 2, out_channels = 4, kernel_size = 3, stride = 2,
                padding = 1, dilation = 1, groups = 1, bias = False\<rparr>,
        BatchNorm2d 4, Activ ReLU]))"
    by (simp add: Conv2DBNActiv_init_def Conv2d_init_def)
  have p: "(0::nat) < 2" "(0::nat) < 4"
    "0 \<notin> set (shape \<lparr>shape = [1, 2, 8, 8], data = Given 0\<rparr>)"
    by simp_all
  show ?thesis
    using h Conv2DBNActiv_conv_bn_activ [OF h p, of True
      "\<lparr>shape = [1, 4, 4, 4],
          data = ActivOp ReLU (BatchNorm2dOp 4 True (Conv2dOp
                  \<lparr>in_channels = 2, out_channels = 4, kernel_size = 3, stride = 2,
                   padding = 1, dilation = 1, groups = 1, bias = False\<rparr> (Given 0)))\<rparr>"]
    by simp
qed

section \<open>Encoder\<close>

lemma Encoder_init_eq:
  "Encoder_init nin nout ksize strd pad act =
     Inr \<lparr>Encoder.conv1 = Conv2DBNActiv (Sequential
            [Conv2d \<lparr>in_channels = nin, out_channels = nout, kernel_size = ksize, stride = 1,
                     padding = pad, dilation = 1, groups = 1, bias = False\<rparr>,
             BatchNorm2d nout, Activ act]),
          Encoder.conv2 = Conv2DBNActiv (Sequential
            [Conv2d \<lparr>in_channels = nout, out_channels = nout, kernel_size = ksize, stride = strd,
                     padding = pad, dilation = 1, groups = 1, bias = False\<rparr>,
             BatchNorm2d nout, Activ act])\<rparr>"
  by (simp add: Encoder_init_def Conv2DBNActiv_init_eq)

text \<open>
  Claim C1.  With the default kernel size 3 and padding 1, on a non-empty input with \<open>nin\<close>
  channels that the batch normalisations accept, the encoder returns the pair
  (downsampled output, skip).  The skip is the first block applied to the input, a
  convolution of stride 1, and has the height and width of the input.  The output is the
  second block, a convolution of the configured stride, applied to the skip; its height
  and width are \<open>(size - 1) div stride + 1\<close>.  The witness is the scenario of the spec: an
  input of shape 1 x 32 x 64 x 64 through \<^verbatim>\<open>Encoder(32, 64, stride=2)\<close> gives a skip of shape
  1 x 64 x 64 x 64 and an output of shape 1 x 64 x 32 x 32.
\<close>

theorem Encoder_output_and_skip:
  assumes init: "Encoder_init nin nout 3 strd 1 act = Inr m"
    and x: "shape x = [n, nin, h, w]"
    and pos: "0 < n" "0 < nin" "0 < nout" "0 < h" "0 < w" "0 < strd"
    and bn1: "\<not> (training \<and> n * h * w = 1)"
    and bn2: "\<not> (training \<and> n * ((h - 1) div strd + 1) * ((w - 1) div strd + 1) = 1)"
  shows "\<exists>out skip. Encoder_call training m x = Inr (out, skip)
     \<and> skip = \<lparr>shape = [n, nout, h, w],
                data = ActivOp act (BatchNorm2dOp nout training (Conv2dOp
                  \<lparr>in_channels = nin, out_channels = nout, kernel_size = 3, stride = 1,
                   padding = 1, dilation = 1, groups = 1, bias = False\<rparr> (data x)))\<rparr>
     \<and> out = \<lparr>shape = [n, nout, (h - 1) div strd + 1, (w - 1) div strd + 1],
               data = ActivOp act (BatchNorm2dOp nout training (Conv2dOp
                  \<lparr>in_channels = nout, out_channels = nout, kernel_size = 3, stride = strd,
                   padding = 1, dilation = 1, groups = 1, bias = False\<rparr> (data skip)))\<rparr>"
proof -
  let ?c1 = "\<lparr>in_channels = nin, out_channels = nout, kernel_size = 3, stride = 1,
              padding = 1, dilation = 1, groups = 1, bias = False\<rparr>"
  let ?c2 = "\<lparr>in_channels = nout, out_channels = nout, kernel_size = 3, stride = strd,
              padding = 1, dilation = 1, groups = 1, bias = False\<rparr>"
  let ?skip = "\<lparr>shape = [n, nout, h, w],
                data = ActivOp act (BatchNorm2dOp nout training (Conv2dOp ?c1 (data x)))\<rparr>"
  have m: "m = \<lparr>Encoder.conv1 = Conv2DBNActiv (Sequential [Conv2d ?c1, BatchNorm2d nout, Activ act]),
                Encoder.conv2 = Conv2DBNActiv (Sequential [Conv2d ?c2, BatchNorm2d nout, Activ act])\<rparr>"
    using init by (simp add: Encoder_init_eq)
  have o1: "conv_out ?c1 h = h" "conv_out ?c1 w = w"
    using pos by (simp_all add: conv_out_def)
  have o2: "conv_out ?c2 h = (h - 1) div strd + 1" "conv_out ?c2 w = (w - 1) div strd + 1"
    by (simp_all add: conv_out_def)
  have "forward training (Conv2DBNActiv (Sequential [Conv2d ?c1, BatchNorm2d nout, Activ act])) x =
      Inr \<lparr>shape = [n, nout, conv_out ?c1 h, conv_out ?c1 w],
           data = ActivOp act (BatchNorm2dOp nout training (Conv2dOp ?c1 (data x)))\<rparr>"
  proof (rule conv_block_total)
    show "shape x = [n, in_channels ?c1, h, w]" using x by simp
    show "\<not> (training \<and> n * conv_out ?c1 h * conv_out ?c1 w = 1)"
      unfolding o1 by (rule bn1)
  qed (use pos in \<open>simp_all add: kernel_extent_def\<close>)
  then have s1: "forward training (Encoder.conv1 m) x = Inr ?skip"
    unfolding o1 by (simp add: m)
  have "forward training (Conv2DBNActiv (Sequential [Conv2d ?c2, BatchNorm2d nout, Activ act])) ?skip =
      Inr \<lparr>shape = [n, nout, conv_out ?c2 h, conv_out ?c2 w],
           data = ActivOp act (BatchNorm2dOp nout training (Conv2dOp ?c2 (data ?skip)))\<rparr>"
  proof (rule conv_block_total)
    show "shape ?skip = [n, in_channels ?c2, h, w]" by simp
    show "\<not> (training \<and> n * conv_out ?c2 h * conv_out ?c2 w = 1)"
      unfolding o2 by (rule bn2)
  qed (use pos in \<open>simp_all add: kernel_extent_def\<close>)
  then have s2: "forward training (Encoder.conv2 m) ?skip =
      Inr \<lparr>shape = [n, nout, (h - 1) div strd + 1, (w - 1) div strd + 1],
           data = ActivOp act (BatchNorm2dOp nout training (Conv2dOp ?c2 (data ?skip)))\<rparr>"
    unfolding o2 by (simp add: m)
  show ?thesis
    unfolding Encoder_call_def s1 using s2 by simp
qed

theorem Encoder_output_and_skip_witness:
  "\<exists>m. Encoder_init 32 64 3 2 1 LeakyReLU = Inr m
     \<and> (\<exists>out skip. Encoder_call False m \<lparr>shape = [1, 32, 64, 64], data = Given 0\<rparr> = Inr (out, skip)
           \<and> shape skip = [1, 64, 64, 64] \<and> shape out = [1, 64, 32, 32])
     \<and> (\<exists>out skip. Encoder_call True m \<lparr>shape = [1, 32, 64, 64], data = Given 0\<rparr> = Inr (out, skip)
           \<and> shape skip = [1, 64, 64, 64] \<and> shape out = [1, 64, 32, 32])"
proof -
  obtain m where h: "Encoder_init 32 64 3 2 1 LeakyReLU = Inr m"
    by (simp add: Encoder_init_eq)
  have x: "shape \<lparr>shape = [1, 32, 64, 64], data = Given 0\<rparr> = [1, 32, 64, 64]"
    by simp
  have p: "(0::nat) < 1" "(0::nat) < 32" "(0::nat) < 64" "(0::nat) < 64" "(0::nat) < 64" "(0::nat) < 2"
    by simp_all
  have a: "\<not> (False \<and> (1::nat) * 64 * 64 = 1)" "\<not> (False \<and> (1::nat) * ((64 - 1) div 2 + 1) * ((64 - 1) div 2 + 1) = 1)"
    by simp_all
  have b: "\<not> (True \<and> (1::nat) * 64 * 64 = 1)" "\<not> (True \<and> (1::nat) * ((64 - 1) div 2 + 1) * ((64 - 1) div 2 + 1) = 1)"
    by simp_all
  show ?thesis
    using h Encoder_output_and_skip [OF h x p a] Encoder_output_and_skip [OF h x p b]
    by auto
qed


section \<open>Decoder\<close>

lemma interpolate_scale:
  assumes "shape x = [n, c, h, w]" and "0 < h" and "0 < w" and "0 < f"
  shows "interpolate_bilinear (ScaleFactor f) al x =
           Inr \<lparr>shape = [n, c, f * h, f * w], data = InterpolateOp (ScaleFactor f) al (data x)\<rparr>"
  using assms by (simp add: interpolate_bilinear_def)

lemma interpolate_size:
  assumes "shape x = [n, c, h, w]" and "0 < h" and "0 < w" and "0 < oh" and "0 < ow"
  shows "interpolate_bilinear (Size oh ow) al x =
           Inr \<lparr>shape = [n, c, oh, ow], data = InterpolateOp (Size oh ow) al (data x)\<rparr>"
  using assms by (simp add: interpolate_bilinear_def)

lemma optional_dropout:
  "(case (if wd then Some (Dropout2d p) else None) of
      None \<Rightarrow> Inr t | Some d \<Rightarrow> forward training d t) =
   Inr \<lparr>shape = shape t,
        data = (if wd \<and> training then Dropout2dOp p (data t) else data t)\<rparr>"
  by (simp add: Dropout2d_call_def)

lemma Decoder_init_eq:
  "Decoder_init nin nout ksize strd pad wd =
     Inr \<lparr>Decoder.conv = Conv2DBNActiv (Sequential
            [Conv2d \<lparr>in_channels = nin, out_channels = nout, kernel_size = ksize, stride = 1,
                     padding = pad, dilation = 1, groups = 1, bias = False\<rparr>,
             BatchNorm2d nout, Activ ReLU]),
          Decoder.dropout = (if wd then Some (Dropout2d (1 / 10)) else None)\<rparr>"
  by (simp add: Decoder_init_def Conv2DBNActiv_init_eq)

lemma conv3x3_same:
  assumes "shape t = [n, nin, h, w]" and "0 < h" and "0 < w"
    and "\<not> (training \<and> n * h * w = 1)"
  shows "forward training (Conv2DBNActiv (Sequential
            [Conv2d \<lparr>in_channels = nin, out_channels = nout, kernel_size = 3, stride = 1,
                     padding = 1, dilation = 1, groups = 1, bias = False\<rparr>,
             BatchNorm2d nout, Activ act])) t =
         Inr \<lparr>shape = [n, nout, h, w],
              data = ActivOp act (BatchNorm2dOp nout training (Conv2dOp
                     \<lparr>in_channels = nin, out_channels = nout, kernel_size = 3, stride = 1,
                      padding = 1, dilation = 1, groups = 1, bias = False\<rparr> (data t)))\<rparr>"
proof -
  let ?c = "\<lparr>in_channels = nin, out_channels = nout, kernel_size = 3, stride = 1,
             padding = 1, dilation = 1, groups = 1, bias = False\<rparr>"
  have o: "conv_out ?c h = h" "conv_out ?c w = w"
    using assms by (simp_all add: conv_out_def)
  have "forward training (Conv2DBNActiv (Sequential [Conv2d ?c, BatchNorm2d nout, Activ act])) t =
      Inr \<lparr>shape = [n, nout, conv_out ?c h, conv_out ?c w],
           data = ActivOp act (BatchNorm2dOp nout training (Conv2dOp ?c (data t)))\<rparr>"
  proof (rule conv_block_total)
    show "shape t = [n, in_channels ?c, h, w]" using assms by simp
    show "\<not> (training \<and> n * conv_out ?c h * conv_out ?c w = 1)"
      unfolding o by (rule assms)
  qed (use assms in \<open>simp_all add: kernel_extent_def\<close>)
  then show ?thesis unfolding o .
qed

text \<open>
  Claim C10.  Called without a skip tensor, the decoder does not crop, whatever
  \<^verbatim>\<open>crop_center\<close> does: the input is upsampled bilinearly with aligned corners by the
  factor 2, so that height and width double, and goes straight into the convolution
  block.  With kernel size 3 and padding 1 (the stride of the block is always 1) the output
  has \<open>nout\<close> channels and twice the height and width of the input.
\<close>

theorem Decoder_without_skip_doubles:
  assumes init: "Decoder_init nin nout 3 strd 1 with_dropout = Inr m"
    and x: "shape x = [n, nin, h, w]"
    and pos: "0 < n" "0 < nin" "0 < nout" "0 < h" "0 < w"
  shows "Decoder_call crop training m x None =
     Inr \<lparr>shape = [n, nout, 2 * h, 2 * w],
          data = (let d = ActivOp ReLU (BatchNorm2dOp nout training (Conv2dOp
                      \<lparr>in_channels = nin, out_channels = nout, kernel_size = 3, stride = 1,
                       padding = 1, dilation = 1, groups = 1, bias = False\<rparr>
                      (InterpolateOp (ScaleFactor 2) True (data x))))
                  in if with_dropout \<and> training then Dropout2dOp (1 / 10) d else d)\<rparr>"
proof -
  let ?c = "\<lparr>in_channels = nin, out_channels = nout, kernel_size = 3, stride = 1,
             padding = 1, dilation = 1, groups = 1, bias = False\<rparr>"
  let ?up = "\<lparr>shape = [n, nin, 2 * h, 2 * w], data = InterpolateOp (ScaleFactor 2) True (data x)\<rparr>"
  have m: "m = \<lparr>Decoder.conv = Conv2DBNActiv (Sequential [Conv2d ?c, BatchNorm2d nout, Activ ReLU]),
                Decoder.dropout = (if with_dropout then Some (Dropout2d (1 / 10)) else None)\<rparr>"
    using init by (simp add: Decoder_init_eq)
  have up: "interpolate_bilinear (ScaleFactor 2) True x = Inr ?up"
    using interpolate_scale [OF x, of 2 True] pos by simp
  have "n * (2 * h) * (2 * w) \<noteq> 1"
    using pos by simp
  then have cv: "forward training (Decoder.conv m) ?up =
      Inr \<lparr>shape = [n, nout, 2 * h, 2 * w],
           data = ActivOp ReLU (BatchNorm2dOp nout training (Conv2dOp ?c (data ?up)))\<rparr>"
    unfolding m using conv3x3_same [of ?up n nin "2 * h" "2 * w" training nout ReLU] pos by simp
  show ?thesis
    unfolding Decoder_call_def up ebind_Inr option.case cv
    by (simp add: m optional_dropout Let_def)
qed


theorem Decoder_without_skip_doubles_witness:
  "\<exists>m. Decoder_init 4 2 3 1 1 True = Inr m
     \<and> Decoder_call (\<lambda>a b. Inl NotImplementedError) True m
           \<lparr>shape = [1, 4, 3, 5], data = Given 0\<rparr> None =
         Inr \<lparr>shape = [1, 2, 6, 10],
              data = Dropout2dOp (1 / 10) (ActivOp ReLU (BatchNorm2dOp 2 True (Conv2dOp
                      \<lparr>in_channels = 4, out_channels = 2, kernel_size = 3, stride = 1,
                       padding = 1, dilation = 1, groups = 1, bias = False\<rparr>
                      (InterpolateOp (ScaleFactor 2) True (Given 0)))))\<rparr>"
proof -
  obtain m where h: "Decoder_init 4 2 3 1 1 True = Inr m"
    by (simp add: Decoder_init_eq)
  have x: "shape \<lparr>shape = [1, 4, 3, 5], data = Given 0\<rparr> = [1, 4, 3, 5]"
    by simp
  have p: "(0::nat) < 1" "(0::nat) < 4" "(0::nat) < 2" "(0::nat) < 3" "(0::nat) < 5"
    by simp_all
  show ?thesis
    using h Decoder_without_skip_doubles [OF h x p, of "\<lambda>a b. Inl NotImplementedError" True]
    by simp
qed

lemma crop_center_oversized:
  assumes "shape x = [n, c, h, w]" and "shape r = [n', c', h', w']" and "h' \<le> h" and "w' \<le> w"
  shows "crop_center x r =
           Inr \<lparr>shape = [n, c, h', w'],
                data = CropOp ((h - h') div 2) ((w - w') div 2) h' w' (data x)\<rparr>"
  using assms by (simp add: crop_center_def)

text \<open>
  Claim C2.  Called with a skip tensor, the decoder upsamples the input by the factor 2
  (bilinear, aligned corners), crops the upsampled tensor to the height and width of the
  skip, and applies its convolution block to the cropped tensor.  With kernel size 3 and
  padding 1 the output has exactly the height and width of the skip, wherever the skip is
  not larger than the upsampled tensor.  This rests on \<open>crop_center\<close> as the spec
  describes it.
\<close>

theorem Decoder_with_skip_matches_skip:
  assumes init: "Decoder_init nin nout 3 strd 1 with_dropout = Inr m"
    and x: "shape x = [n, nin, h, w]"
    and skip: "shape skip = [ns, cs, hs, ws]"
    and pos: "0 < n" "0 < nin" "0 < nout" "0 < h" "0 < w" "0 < hs" "0 < ws"
    and fits: "hs \<le> 2 * h" "ws \<le> 2 * w"
    and bn: "\<not> (training \<and> n * hs * ws = 1)"
  shows "Decoder_call crop_center training m x (Some skip) =
     Inr \<lparr>shape = [n, nout, hs, ws],
          data = (let d = ActivOp ReLU (BatchNorm2dOp nout training (Conv2dOp
                      \<lparr>in_channels = nin, out_channels = nout, kernel_size = 3, stride = 1,
                       padding = 1, dilation = 1, groups = 1, bias = False\<rparr>
                      (CropOp ((2 * h - hs) div 2) ((2 * w - ws) div 2) hs ws
                         (InterpolateOp (ScaleFactor 2) True (data x)))))
                  in if with_dropout \<and> training then Dropout2dOp (1 / 10) d else d)\<rparr>"
proof -
  let ?c = "\<lparr>in_channels = nin, out_channels = nout, kernel_size = 3, stride = 1,
             padding = 1, dilation = 1, groups = 1, bias = False\<rparr>"
  let ?up = "\<lparr>shape = [n, nin, 2 * h, 2 * w], data = InterpolateOp (ScaleFactor 2) True (data x)\<rparr>"
  let ?cr = "\<lparr>shape = [n, nin, hs, ws],
              data = CropOp ((2 * h - hs) div 2) ((2 * w - ws) div 2) hs ws (data ?up)\<rparr>"
  have m: "m = \<lparr>Decoder.conv = Conv2DBNActiv (Sequential [Conv2d ?c, BatchNorm2d nout, Activ ReLU]),
                Decoder.dropout = (if with_dropout then Some (Dropout2d (1 / 10)) else None)\<rparr>"
    using init by (simp add: Decoder_init_eq)
  have up: "interpolate_bilinear (ScaleFactor 2) True x = Inr ?up"
    using interpolate_scale [OF x, of 2 True] pos by simp
  have cr: "crop_center ?up skip = Inr ?cr"
    using crop_center_oversized [of ?up n nin "2 * h" "2 * w" skip ns cs hs ws] skip fits by simp
  have cv: "forward training (Decoder.conv m) ?cr =
      Inr \<lparr>shape = [n, nout, hs, ws],
           data = ActivOp ReLU (BatchNorm2dOp nout training (Conv2dOp ?c (data ?cr)))\<rparr>"
    unfolding m using conv3x3_same [of ?cr n nin hs ws training nout ReLU] pos bn by simp
  show ?thesis
    unfolding Decoder_call_def up ebind_Inr option.case cr cv
    by (simp add: m optional_dropout Let_def)
qed

theorem Decoder_with_skip_matches_skip_witness:
  "\<exists>m. Decoder_init 4 2 3 1 1 False = Inr m
     \<and> Decoder_call crop_center True m \<lparr>shape = [1, 4, 3, 5], data = Given 0\<rparr>
           (Some \<lparr>shape = [1, 4, 5, 9], data = Given 1\<rparr>) =
         Inr \<lparr>shape = [1, 2, 5, 9],
              data = ActivOp ReLU (BatchNorm2dOp 2 True (Conv2dOp
                      \<lparr>in_channels = 4, out_channels = 2, kernel_size = 3, stride = 1,
                       padding = 1, dilation = 1, groups = 1, bias = False\<rparr>
                      (CropOp 0 0 5 9 (InterpolateOp (ScaleFactor 2) True (Given 0)))))\<rparr>"
proof -
  obtain m where h: "Decoder_init 4 2 3 1 1 False = Inr m"
    by (simp add: Decoder_init_eq)
  have x: "shape \<lparr>shape = [1, 4, 3, 5], data = Given 0\<rparr> = [1, 4, 3, 5]"
    and s: "shape \<lparr>shape = [1, 4, 5, 9], data = Given 1\<rparr> = [1, 4, 5, 9]"
    by simp_all
  have p: "(0::nat) < 1" "(0::nat) < 4" "(0::nat) < 2" "(0::nat) < 3" "(0::nat) < 5"
    "(0::nat) < 5" "(0::nat) < 9"
    by simp_all
  have f: "(5::nat) \<le> 2 * 3" "(9::nat) \<le> 2 * 5"
    by simp_all
  have b: "\<not> (True \<and> (1::nat) * 5 * 9 = 1)"
    by simp
  show ?thesis
    using h Decoder_with_skip_matches_skip [OF h x s p f b] by simp
qed

section \<open>DecoderV2\<close>




lemma conv1x1_same:
  assumes "shape t = [n, nin, h, w]" and "0 < h" and "0 < w"
    and "\<not> (training \<and> n * h * w = 1)"
  shows "forward training (Conv2DBNActiv (Sequential
            [Conv2d \<lparr>in_channels = nin, out_channels = nout, kernel_size = 1, stride = 1,
                     padding = 0, dilation = 1, groups = 1, bias = False\<rparr>,
             BatchNorm2d nout, Activ act])) t =
         Inr \<lparr>shape = [n, nout, h, w],
              data = ActivOp act (BatchNorm2dOp nout training (Conv2dOp
                     \<lparr>in_channels = nin, out_channels = nout, kernel_size = 1, stride = 1,
                      padding = 0, dilation = 1, groups = 1, bias = False\<rparr> (data t)))\<rparr>"
proof -
  let ?c = "\<lparr>in_channels = nin, out_channels = nout, kernel_size = 1, stride = 1,
             padding = 0, dilation = 1, groups = 1, bias = False\<rparr>"
  have o: "conv_out ?c h = h" "conv_out ?c w = w"
    using assms by (simp_all add: conv_out_def)
  have "forward training (Conv2DBNActiv (Sequential [Conv2d ?c, BatchNorm2d nout, Activ act])) t =
      Inr \<lparr>shape = [n, nout, conv_out ?c h, conv_out ?c w],
           data = ActivOp act (BatchNorm2dOp nout training (Conv2dOp ?c (data t)))\<rparr>"
  proof (rule conv_block_total)
    show "shape t = [n, in_channels ?c, h, w]" using assms by simp
    show "\<not> (training \<and> n * conv_out ?c h * conv_out ?c w = 1)"
      unfolding o by (rule assms)
  qed (use assms in \<open>simp_all add: kernel_extent_def\<close>)
  then show ?thesis unfolding o .
qed



section \<open>SeperableConv2DBNActiv\<close>

lemma SeperableConv2DBNActiv_init_eq:
  assumes "0 < nin"
  shows "SeperableConv2DBNActiv_init nin nout ksize strd pad dil act =
     Inr (SeperableConv2DBNActiv (Sequential
       [Conv2d \<lparr>in_channels = nin, out_channels = nin, kernel_size = ksize, stride = strd,
                padding = pad, dilation = dil, groups = nin, bias = False\<rparr>,
        Conv2d \<lparr>in_channels = nin, out_channels = nout, kernel_size = 1, stride = 1,
                padding = 0, dilation = 1, groups = 1, bias = False\<rparr>,
        BatchNorm2d nout, Activ act]))"
  using assms by (simp add: SeperableConv2DBNActiv_init_def Conv2d_init_def)

lemma conv_out_pos: "0 < conv_out c n"
  by (simp add: conv_out_def)

lemma pointwise_extent:
  assumes "kernel_size p = 1"
  shows "kernel_extent p = 1"
  using assms by (simp add: kernel_extent_def)

lemma pointwise_out:
  assumes "kernel_size p = 1" and "stride p = 1" and "padding p = 0" and "0 < k"
  shows "conv_out p k = k"
  using assms by (simp add: conv_out_def)

lemma sep_block_unfold:
  "forward training (SeperableConv2DBNActiv (Sequential [Conv2d dw, Conv2d pw, l3, l4])) x = Inr y
   \<longleftrightarrow> (\<exists>t. Conv2d_call dw x = Inr t
          \<and> forward training (Conv2DBNActiv (Sequential [Conv2d pw, l3, l4])) t = Inr y)"
  by (cases "Conv2d_call dw x") simp_all

lemma sep_block_eq_Inr:
  assumes pw: "kernel_size pw = 1" "stride pw = 1" "padding pw = 0" "dilation pw = 1"
    "in_channels pw = out_channels dw" "out_channels pw = nout"
  shows "forward training (SeperableConv2DBNActiv (Sequential
      [Conv2d dw, Conv2d pw, BatchNorm2d nout, Activ act])) x = Inr y
   \<longleftrightarrow>
     (\<exists>n h w. shape x = [n, in_channels dw, h, w]
        \<and> 0 < kernel_size dw \<and> 0 < stride dw \<and> 0 < dilation dw
        \<and> kernel_extent dw \<le> h + 2 * padding dw \<and> kernel_extent dw \<le> w + 2 * padding dw
        \<and> \<not> (training \<and> n * conv_out dw h * conv_out dw w = 1)
        \<and> y = \<lparr>shape = [n, nout, conv_out dw h, conv_out dw w],
                data = ActivOp act (BatchNorm2dOp nout training (Conv2dOp pw
                         (Conv2dOp dw (data x))))\<rparr>)"
  (is "?L \<longleftrightarrow> ?R")
proof
  assume ?L
  then obtain t where t: "Conv2d_call dw x = Inr t"
    and y: "forward training (Conv2DBNActiv (Sequential
               [Conv2d pw, BatchNorm2d nout, Activ act])) t = Inr y"
    unfolding sep_block_unfold by blast
  from t obtain n h w where x: "shape x = [n, in_channels dw, h, w]"
    and ok: "0 < kernel_size dw" "0 < stride dw" "0 < dilation dw"
      "kernel_extent dw \<le> h + 2 * padding dw" "kernel_extent dw \<le> w + 2 * padding dw"
    and t': "t = \<lparr>shape = [n, out_channels dw, conv_out dw h, conv_out dw w],
                  data = Conv2dOp dw (data x)\<rparr>"
    unfolding Conv2d_call_eq_Inr by blast
  have o: "conv_out pw (conv_out dw h) = conv_out dw h" "conv_out pw (conv_out dw w) = conv_out dw w"
    using pw by (simp_all add: pointwise_out conv_out_pos)
  from y obtain n2 h2 w2 where s: "shape t = [n2, in_channels pw, h2, w2]"
    and bn: "\<not> (training \<and> n2 * conv_out pw h2 * conv_out pw w2 = 1)"
    and y': "y = \<lparr>shape = [n2, nout, conv_out pw h2, conv_out pw w2],
                  data = ActivOp act (BatchNorm2dOp nout training (Conv2dOp pw (data t)))\<rparr>"
    unfolding conv_block_eq_Inr by blast
  from s have e: "n2 = n" "h2 = conv_out dw h" "w2 = conv_out dw w"
    by (simp_all add: t')
  have "\<not> (training \<and> n * conv_out dw h * conv_out dw w = 1)"
    using bn unfolding e o .
  moreover have "y = \<lparr>shape = [n, nout, conv_out dw h, conv_out dw w],
                data = ActivOp act (BatchNorm2dOp nout training (Conv2dOp pw
                         (Conv2dOp dw (data x))))\<rparr>"
    using y' unfolding e o by (simp add: t')
  ultimately show ?R
    using x ok by blast
next
  assume ?R
  then obtain n h w where x: "shape x = [n, in_channels dw, h, w]"
    and ok: "0 < kernel_size dw" "0 < stride dw" "0 < dilation dw"
      "kernel_extent dw \<le> h + 2 * padding dw" "kernel_extent dw \<le> w + 2 * padding dw"
    and bn: "\<not> (training \<and> n * conv_out dw h * conv_out dw w = 1)"
    and y: "y = \<lparr>shape = [n, nout, conv_out dw h, conv_out dw w],
                data = ActivOp act (BatchNorm2dOp nout training (Conv2dOp pw
                         (Conv2dOp dw (data x))))\<rparr>"
    by blast
  let ?t = "\<lparr>shape = [n, out_channels dw, conv_out dw h, conv_out dw w],
             data = Conv2dOp dw (data x)\<rparr>"
  have o: "conv_out pw (conv_out dw h) = conv_out dw h" "conv_out pw (conv_out dw w) = conv_out dw w"
    using pw by (simp_all add: pointwise_out conv_out_pos)
  have t: "Conv2d_call dw x = Inr ?t"
    unfolding Conv2d_call_eq_Inr using x ok by blast
  have "forward training (Conv2DBNActiv (Sequential
               [Conv2d pw, BatchNorm2d nout, Activ act])) ?t =
          Inr \<lparr>shape = [n, nout, conv_out pw (conv_out dw h), conv_out pw (conv_out dw w)],
               data = ActivOp act (BatchNorm2dOp nout training (Conv2dOp pw (data ?t)))\<rparr>"
  proof (rule conv_block_total)
    show "shape ?t = [n, in_channels pw, conv_out dw h, conv_out dw w]"
      using pw by simp
    show "\<not> (training \<and> n * conv_out pw (conv_out dw h) * conv_out pw (conv_out dw w) = 1)"
      unfolding o by (rule bn)
    show "kernel_extent pw \<le> conv_out dw h + 2 * padding pw"
      using pw conv_out_pos [of dw h] by (simp add: pointwise_extent)
    show "kernel_extent pw \<le> conv_out dw w + 2 * padding pw"
      using pw conv_out_pos [of dw w] by (simp add: pointwise_extent)
  qed (use pw in simp_all)
  then have "forward training (Conv2DBNActiv (Sequential
               [Conv2d pw, BatchNorm2d nout, Activ act])) ?t = Inr y"
    unfolding o y by simp
  with t show ?L
    unfolding sep_block_unfold by blast
qed

lemma depthwise_reads:
  assumes "o' < nin"
  shows "conv_reads \<lparr>in_channels = nin, out_channels = nin, kernel_size = ksize, stride = strd,
                     padding = pad, dilation = dil, groups = nin, bias = False\<rparr> o' = [o']"
  using assms by (simp add: conv_reads_def)

text \<open>
  Claim C8.  A block built by \<open>SeperableConv2DBNActiv_init\<close> with \<open>nin\<close> input channels
  returns on a non-empty input under the same conditions as Conv2DBNActiv, and its result
  is the activation of the batch normalisation over \<open>nout\<close> channels of a 1 x 1 convolution
  from \<open>nin\<close> to \<open>nout\<close> channels of a first convolution with \<open>nin\<close> groups.  That first
  convolution keeps the channel count at \<open>nin\<close>, and each of its output channels reads
  the input channel of the same index and no other.  The last two layers of the block are
  the batch normalisation and the activation that Conv2DBNActiv builds for the same
  arguments.
\<close>

theorem SeperableConv2DBNActiv_depthwise_pointwise:
  assumes init: "SeperableConv2DBNActiv_init nin nout ksize strd pad dil act = Inr m"
    and pos: "0 < nin" "0 < nout" "0 \<notin> set (shape x)"
  shows "(forward training m x = Inr y \<longleftrightarrow>
     (\<exists>n h w. shape x = [n, nin, h, w]
        \<and> 0 < ksize \<and> 0 < strd \<and> 0 < dil
        \<and> dil * (ksize - 1) + 1 \<le> h + 2 * pad \<and> dil * (ksize - 1) + 1 \<le> w + 2 * pad
        \<and> \<not> (training \<and> n * ((h + 2 * pad - dil * (ksize - 1) - 1) div strd + 1)
                            * ((w + 2 * pad - dil * (ksize - 1) - 1) div strd + 1) = 1)
        \<and> y = \<lparr>shape = [n, nout, (h + 2 * pad - dil * (ksize - 1) - 1) div strd + 1,
                                  (w + 2 * pad - dil * (ksize - 1) - 1) div strd + 1],
                data = ActivOp act (BatchNorm2dOp nout training
                  (Conv2dOp \<lparr>in_channels = nin, out_channels = nout, kernel_size = 1,
                     stride = 1, padding = 0, dilation = 1, groups = 1, bias = False\<rparr>
                    (Conv2dOp \<lparr>in_channels = nin, out_channels = nin, kernel_size = ksize,
                       stride = strd, padding = pad, dilation = dil, groups = nin,
                       bias = False\<rparr> (data x))))\<rparr>))
    \<and> (\<forall>n h w. shape x = [n, nin, h, w] \<and> 0 < ksize \<and> 0 < strd \<and> 0 < dil
          \<and> dil * (ksize - 1) + 1 \<le> h + 2 * pad \<and> dil * (ksize - 1) + 1 \<le> w + 2 * pad
        \<longrightarrow> Conv2d_call \<lparr>in_channels = nin, out_channels = nin, kernel_size = ksize,
                        stride = strd, padding = pad, dilation = dil, groups = nin,
                        bias = False\<rparr> x =
            Inr \<lparr>shape = [n, nin, (h + 2 * pad - dil * (ksize - 1) - 1) div strd + 1,
                                   (w + 2 * pad - dil * (ksize - 1) - 1) div strd + 1],
                 data = Conv2dOp \<lparr>in_channels = nin, out_channels = nin, kernel_size = ksize,
                          stride = strd, padding = pad, dilation = dil, groups = nin,
                          bias = False\<rparr> (data x)\<rparr>)
    \<and> (\<forall>c<nin. conv_reads \<lparr>in_channels = nin, out_channels = nin, kernel_size = ksize,
                   stride = strd, padding = pad, dilation = dil, groups = nin,
                   bias = False\<rparr> c = [c])
    \<and> (\<exists>l1 l2 l3 l4 k1. m = SeperableConv2DBNActiv (Sequential [l1, l2, l3, l4])
          \<and> Conv2DBNActiv_init nin nout ksize strd pad dil act =
              Inr (Conv2DBNActiv (Sequential [k1, l3, l4])))"
proof -
  let ?dw = "\<lparr>in_channels = nin, out_channels = nin, kernel_size = ksize, stride = strd,
              padding = pad, dilation = dil, groups = nin, bias = False\<rparr>"
  let ?pw = "\<lparr>in_channels = nin, out_channels = nout, kernel_size = 1, stride = 1,
              padding = 0, dilation = 1, groups = 1, bias = False\<rparr>"
  have m: "m = SeperableConv2DBNActiv (Sequential
              [Conv2d ?dw, Conv2d ?pw, BatchNorm2d nout, Activ act])"
    using init pos by (simp add: SeperableConv2DBNActiv_init_eq)
  have pw: "kernel_size ?pw = 1" "stride ?pw = 1" "padding ?pw = 0" "dilation ?pw = 1"
    "in_channels ?pw = out_channels ?dw" "out_channels ?pw = nout"
    by simp_all
  have a: "forward training m x = Inr y \<longleftrightarrow>
     (\<exists>n h w. shape x = [n, nin, h, w]
        \<and> 0 < ksize \<and> 0 < strd \<and> 0 < dil
        \<and> dil * (ksize - 1) + 1 \<le> h + 2 * pad \<and> dil * (ksize - 1) + 1 \<le> w + 2 * pad
        \<and> \<not> (training \<and> n * ((h + 2 * pad - dil * (ksize - 1) - 1) div strd + 1)
                            * ((w + 2 * pad - dil * (ksize - 1) - 1) div strd + 1) = 1)
        \<and> y = \<lparr>shape = [n, nout, (h + 2 * pad - dil * (ksize - 1) - 1) div strd + 1,
                                  (w + 2 * pad - dil * (ksize - 1) - 1) div strd + 1],
                data = ActivOp act (BatchNorm2dOp nout training
                  (Conv2dOp ?pw (Conv2dOp ?dw (data x))))\<rparr>)"
    unfolding m sep_block_eq_Inr [OF pw] by (simp add: conv_out_def kernel_extent_def)
  have d: "\<forall>n h w. shape x = [n, nin, h, w] \<and> 0 < ksize \<and> 0 < strd \<and> 0 < dil
          \<and> dil * (ksize - 1) + 1 \<le> h + 2 * pad \<and> dil * (ksize - 1) + 1 \<le> w + 2 * pad
        \<longrightarrow> Conv2d_call ?dw x =
            Inr \<lparr>shape = [n, nin, (h + 2 * pad - dil * (ksize - 1) - 1) div strd + 1,
                                   (w + 2 * pad - dil * (ksize - 1) - 1) div strd + 1],
                 data = Conv2dOp ?dw (data x)\<rparr>"
    by (simp add: Conv2d_call_def conv_out_def kernel_extent_def)
  have b: "\<forall>c<nin. conv_reads ?dw c = [c]"
    by (simp add: depthwise_reads)
  have c: "\<exists>l1 l2 l3 l4 k1. m = SeperableConv2DBNActiv (Sequential [l1, l2, l3, l4])
          \<and> Conv2DBNActiv_init nin nout ksize strd pad dil act =
              Inr (Conv2DBNActiv (Sequential [k1, l3, l4]))"
    by (simp add: m Conv2DBNActiv_init_eq)
  show ?thesis
    by (intro conjI a d b c)
qed

theorem SeperableConv2DBNActiv_depthwise_pointwise_witness:
  "\<exists>m. SeperableConv2DBNActiv_init 4 2 3 1 4 4 LeakyReLU = Inr m
     \<and> forward True m \<lparr>shape = [1, 4, 5, 7], data = Given 0\<rparr> =
         Inr \<lparr>shape = [1, 2, 5, 7],
              data = ActivOp LeakyReLU (BatchNorm2dOp 2 True
                  (Conv2dOp \<lparr>in_channels = 4, out_channels = 2, kernel_size = 1,
                     stride = 1, padding = 0, dilation = 1, groups = 1, bias = False\<rparr>
                    (Conv2dOp \<lparr>in_channels = 4, out_channels = 4, kernel_size = 3,
                       stride = 1, padding = 4, dilation = 4, groups = 4,
                       bias = False\<rparr> (Given 0))))\<rparr>
     \<and> Conv2d_call \<lparr>in_channels = 4, out_channels = 4, kernel_size = 3,
                       stride = 1, padding = 4, dilation = 4, groups = 4,
                       bias = False\<rparr> \<lparr>shape = [1, 4, 5, 7], data = Given 0\<rparr> =
         Inr \<lparr>shape = [1, 4, 5, 7],
              data = Conv2dOp \<lparr>in_channels = 4, out_channels = 4, kernel_size = 3,
                       stride = 1, padding = 4, dilation = 4, groups = 4,
                       bias = False\<rparr> (Given 0)\<rparr>
     \<and> conv_reads \<lparr>in_channels = 4, out_channels = 4, kernel_size = 3,
                       stride = 1, padding = 4, dilation = 4, groups = 4,
                       bias = False\<rparr> 3 = [3]"
proof -
  obtain m where h: "SeperableConv2DBNActiv_init 4 2 3 1 4 4 LeakyReLU = Inr m"
    by (simp add: SeperableConv2DBNActiv_init_eq)
  have p: "(0::nat) < 4" "(0::nat) < 2" "0 \<notin> set (shape \<lparr>shape = [1, 4, 5, 7], data = Given 0\<rparr>)"
    by simp_all
  have q: "(3::nat) < 4"
    by simp
  note t = SeperableConv2DBNActiv_depthwise_pointwise [OF h p, of True
      "\<lparr>shape = [1, 2, 5, 7],
              data = ActivOp LeakyReLU (BatchNorm2dOp 2 True
                  (Conv2dOp \<lparr>in_channels = 4, out_channels = 2, kernel_size = 1,
                     stride = 1, padding = 0, dilation = 1, groups = 1, bias = False\<rparr>
                    (Conv2dOp \<lparr>in_channels = 4, out_channels = 4, kernel_size = 3,
                       stride = 1, padding = 4, dilation = 4, groups = 4,
                       bias = False\<rparr> (Given 0))))\<rparr>"]
  have 1: "forward True m \<lparr>shape = [1, 4, 5, 7], data = Given 0\<rparr> =
         Inr \<lparr>shape = [1, 2, 5, 7],
              data = ActivOp LeakyReLU (BatchNorm2dOp 2 True
                  (Conv2dOp \<lparr>in_channels = 4, out_channels = 2, kernel_size = 1,
                     stride = 1, padding = 0, dilation = 1, groups = 1, bias = False\<rparr>
                    (Conv2dOp \<lparr>in_channels = 4, out_channels = 4, kernel_size = 3,
                       stride = 1, padding = 4, dilation = 4, groups = 4,
                       bias = False\<rparr> (Given 0))))\<rparr>"
    using t [THEN conjunct1] by simp
  have 2: "Conv2d_call \<lparr>in_channels = 4, out_channels = 4, kernel_size = 3,
                       stride = 1, padding = 4, dilation = 4, groups = 4,
                       bias = False\<rparr> \<lparr>shape = [1, 4, 5, 7], data = Given 0\<rparr> =
         Inr \<lparr>shape = [1, 4, 5, 7],
              data = Conv2dOp \<lparr>in_channels = 4, out_channels = 4, kernel_size = 3,
                       stride = 1, padding = 4, dilation = 4, groups = 4,
                       bias = False\<rparr> (Given 0)\<rparr>"
    using t [THEN conjunct2, THEN conjunct1, rule_format, of 1 5 7] by simp
  have 3: "conv_reads \<lparr>in_channels = 4, out_channels = 4, kernel_size = 3,
                       stride = 1, padding = 4, dilation = 4, groups = 4,
                       bias = False\<rparr> 3 = [3]"
    using t [THEN conjunct2, THEN conjunct2, THEN conjunct1, rule_format, OF q] .
  show ?thesis
    using h 1 2 3 by blast
qed

section \<open>ASPPModule\<close>

lemma ASPPModule_init_eq:
  assumes "0 < nin"
  shows "ASPPModule_init nin [d0, d1, d2] =
     Inr \<lparr>ASPPModule.conv1 = Sequential [AdaptiveAvgPool2d 1 1,
            Conv2DBNActiv (Sequential
              [Conv2d \<lparr>in_channels = nin, out_channels = nin, kernel_size = 1, stride = 1,
                       padding = 0, dilation = 1, groups = 1, bias = False\<rparr>,
               BatchNorm2d nin, Activ LeakyReLU])],
          ASPPModule.conv2 = Conv2DBNActiv (Sequential
              [Conv2d \<lparr>in_channels = nin, out_channels = nin, kernel_size = 1, stride = 1,
                       padding = 0, dilation = 1, groups = 1, bias = False\<rparr>,
               BatchNorm2d nin, Activ LeakyReLU]),
          ASPPModule.conv3 = SeperableConv2DBNActiv (Sequential
              [Conv2d \<lparr>in_channels = nin, out_channels = nin, kernel_size = 3, stride = 1,
                       padding = d0, dilation = d0, groups = nin, bias = False\<rparr>,
               Conv2d \<lparr>in_channels = nin, out_channels = nin, kernel_size = 1, stride = 1,
                       padding = 0, dilation = 1, groups = 1, bias = False\<rparr>,
               BatchNorm2d nin, Activ LeakyReLU]),
          ASPPModule.conv4 = SeperableConv2DBNActiv (Sequential
              [Conv2d \<lparr>in_channels = nin, out_channels = nin, kernel_size = 3, stride = 1,
                       padding = d1, dilation = d1, groups = nin, bias = False\<rparr>,
               Conv2d \<lparr>in_channels = nin, out_channels = nin, kernel_size = 1, stride = 1,
                       padding = 0, dilation = 1, groups = 1, bias = False\<rparr>,
               BatchNorm2d nin, Activ LeakyReLU]),
          ASPPModule.conv5 = SeperableConv2DBNActiv (Sequential
              [Conv2d \<lparr>in_channels = nin, out_channels = nin, kernel_size = 3, stride = 1,
                       padding = d2, dilation = d2, groups = nin, bias = False\<rparr>,
               Conv2d \<lparr>in_channels = nin, out_channels = nin, kernel_size = 1, stride = 1,
                       padding = 0, dilation = 1, groups = 1, bias = False\<rparr>,
               BatchNorm2d nin, Activ LeakyReLU]),
          ASPPModule.bottleneck = Sequential
            [Conv2DBNActiv (Sequential
              [Conv2d \<lparr>in_channels = nin * 5, out_channels = nin, kernel_size = 1, stride = 1,
                       padding = 0, dilation = 1, groups = 1, bias = False\<rparr>,
               BatchNorm2d nin, Activ LeakyReLU]),
             Dropout2d (1 / 10)]\<rparr>"
  using assms
  by (simp add: ASPPModule_init_def Conv2DBNActiv_init_eq SeperableConv2DBNActiv_init_eq
      tuple_getitem_def)

lemma atrous_sep_same:
  assumes x: "shape x = [n, nin, h, w]" and pos: "0 < h" "0 < w" "0 < d"
    and bn: "\<not> (training \<and> n * h * w = 1)"
  shows "forward training (SeperableConv2DBNActiv (Sequential
              [Conv2d \<lparr>in_channels = nin, out_channels = nin, kernel_size = 3, stride = 1,
                       padding = d, dilation = d, groups = nin, bias = False\<rparr>,
               Conv2d \<lparr>in_channels = nin, out_channels = nout, kernel_size = 1, stride = 1,
                       padding = 0, dilation = 1, groups = 1, bias = False\<rparr>,
               BatchNorm2d nout, Activ act])) x =
         Inr \<lparr>shape = [n, nout, h, w],
              data = ActivOp act (BatchNorm2dOp nout training
                (Conv2dOp \<lparr>in_channels = nin, out_channels = nout, kernel_size = 1, stride = 1,
                       padding = 0, dilation = 1, groups = 1, bias = False\<rparr>
                  (Conv2dOp \<lparr>in_channels = nin, out_channels = nin, kernel_size = 3, stride = 1,
                       padding = d, dilation = d, groups = nin, bias = False\<rparr> (data x))))\<rparr>"
proof -
  let ?dw = "\<lparr>in_channels = nin, out_channels = nin, kernel_size = 3, stride = 1,
              padding = d, dilation = d, groups = nin, bias = False\<rparr>"
  let ?pw = "\<lparr>in_channels = nin, out_channels = nout, kernel_size = 1, stride = 1,
              padding = 0, dilation = 1, groups = 1, bias = False\<rparr>"
  have pw: "kernel_size ?pw = 1" "stride ?pw = 1" "padding ?pw = 0" "dilation ?pw = 1"
    "in_channels ?pw = out_channels ?dw" "out_channels ?pw = nout"
    by simp_all
  have o: "conv_out ?dw h = h" "conv_out ?dw w = w"
    using pos by (simp_all add: conv_out_def)
  have e: "kernel_extent ?dw = 2 * d + 1"
    by (simp add: kernel_extent_def)
  have "\<exists>n' h' w'. shape x = [n', in_channels ?dw, h', w']
        \<and> 0 < kernel_size ?dw \<and> 0 < stride ?dw \<and> 0 < dilation ?dw
        \<and> kernel_extent ?dw \<le> h' + 2 * padding ?dw \<and> kernel_extent ?dw \<le> w' + 2 * padding ?dw
        \<and> \<not> (training \<and> n' * conv_out ?dw h' * conv_out ?dw w' = 1)
        \<and> \<lparr>shape = [n, nout, h, w],
            data = ActivOp act (BatchNorm2dOp nout training (Conv2dOp ?pw
                         (Conv2dOp ?dw (data x))))\<rparr>
          = \<lparr>shape = [n', nout, conv_out ?dw h', conv_out ?dw w'],
                data = ActivOp act (BatchNorm2dOp nout training (Conv2dOp ?pw
                         (Conv2dOp ?dw (data x))))\<rparr>"
    apply (rule exI [of _ n], rule exI [of _ h], rule exI [of _ w])
    unfolding o e
    using x pos bn by simp
  then show ?thesis
    unfolding sep_block_eq_Inr [OF pw] .
qed

lemma cat_five:
  assumes "shape a = [n, c, h, w]" and "shape b = [n, c, h, w]" and "shape d = [n, c, h, w]"
    and "shape e = [n, c, h, w]" and "shape f = [n, c, h, w]"
  shows "cat [a, b, d, e, f] 1 =
           Inr \<lparr>shape = [n, c * 5, h, w], data = CatOp 1 [data a, data b, data d, data e, data f]\<rparr>"
  using assms by (simp add: cat_def)

text \<open>
  In training mode the batch normalisation of the pooled branch sees one value per
  channel and sample, and refuses a batch of one sample.
\<close>

lemma ASPPModule_training_single_sample_raises:
  assumes init: "ASPPModule_init nin [d0, d1, d2] = Inr m"
    and x: "shape x = [1, nin, h, w]"
    and pos: "0 < nin" "0 < h" "0 < w"
  shows "ASPPModule_forward True m x = Inl ValueError"
proof -
  note m = init [unfolded ASPPModule_init_eq [OF pos(1)], simplified, symmetric]
  have "forward True (ASPPModule.conv1 m) x = Inl ValueError"
    unfolding m using x pos
    by (simp add: AdaptiveAvgPool2d_call_def Conv2d_call_def kernel_extent_def conv_out_def
        BatchNorm2d_call_def)
  then show ?thesis
    unfolding ASPPModule_forward_def x list.case by simp
qed

lemma ASPPModule_branches_valid:
  assumes init: "ASPPModule_init nin [d0, d1, d2] = Inr m"
    and x: "shape x = [n, nin, h, w]"
    and pos: "0 < n" "0 < nin" "0 < h" "0 < w" "0 < d0" "0 < d1" "0 < d2"
    and bn: "\<not> (training \<and> n = 1)"
  shows "\<exists>pooled feat1 feat2 feat3 feat4 feat5.
      AdaptiveAvgPool2d_call 1 1 x =
        Inr \<lparr>shape = [n, nin, 1, 1], data = AdaptiveAvgPool2dOp 1 1 (data x)\<rparr>
    \<and> forward training (ASPPModule.conv1 m) x = Inr pooled
    \<and> pooled = \<lparr>shape = [n, nin, 1, 1],
            data = ActivOp LeakyReLU (BatchNorm2dOp nin training
              (Conv2dOp \<lparr>in_channels = nin, out_channels = nin, kernel_size = 1, stride = 1,
                  padding = 0, dilation = 1, groups = 1, bias = False\<rparr>
                (AdaptiveAvgPool2dOp 1 1 (data x))))\<rparr>
    \<and> interpolate_bilinear (Size h w) True pooled = Inr feat1
    \<and> feat1 = \<lparr>shape = [n, nin, h, w],
            data = InterpolateOp (Size h w) True (ActivOp LeakyReLU (BatchNorm2dOp nin training
              (Conv2dOp \<lparr>in_channels = nin, out_channels = nin, kernel_size = 1, stride = 1,
                  padding = 0, dilation = 1, groups = 1, bias = False\<rparr>
                (AdaptiveAvgPool2dOp 1 1 (data x)))))\<rparr>
    \<and> forward training (ASPPModule.conv2 m) x = Inr feat2
    \<and> feat2 = \<lparr>shape = [n, nin, h, w],
            data = ActivOp LeakyReLU (BatchNorm2dOp nin training
              (Conv2dOp \<lparr>in_channels = nin, out_channels = nin, kernel_size = 1, stride = 1,
                  padding = 0, dilation = 1, groups = 1, bias = False\<rparr> (data x)))\<rparr>
    \<and> forward training (ASPPModule.conv3 m) x = Inr feat3
    \<and> feat3 = \<lparr>shape = [n, nin, h, w],
            data = ActivOp LeakyReLU (BatchNorm2dOp nin training
              (Conv2dOp \<lparr>in_channels = nin, out_channels = nin, kernel_size = 1, stride = 1,
                  padding = 0, dilation = 1, groups = 1, bias = False\<rparr>
                (Conv2dOp \<lparr>in_channels = nin, out_channels = nin, kernel_size = 3, stride = 1,
                  padding = d0, dilation = d0, groups = nin, bias = False\<rparr> (data x))))\<rparr>
    \<and> forward training (ASPPModule.conv4 m) x = Inr feat4
    \<and> feat4 = \<lparr>shape = [n, nin, h, w],
            data = ActivOp LeakyReLU (BatchNorm2dOp nin training
              (Conv2dOp \<lparr>in_channels = nin, out_channels = nin, kernel_size = 1, stride = 1,
                  padding = 0, dilation = 1, groups = 1, bias = False\<rparr>
                (Conv2dOp \<lparr>in_channels = nin, out_channels = nin, kernel_size = 3, stride = 1,
                  padding = d1, dilation = d1, groups = nin, bias = False\<rparr> (data x))))\<rparr>
    \<and> forward training (ASPPModule.conv5 m) x = Inr feat5
    \<and> feat5 = \<lparr>shape = [n, nin, h, w],
            data = ActivOp LeakyReLU (BatchNorm2dOp nin training
              (Conv2dOp \<lparr>in_channels = nin, out_channels = nin, kernel_size = 1, stride = 1,
                  padding = 0, dilation = 1, groups = 1, bias = False\<rparr>
                (Conv2dOp \<lparr>in_channels = nin, out_channels = nin, kernel_size = 3, stride = 1,
                  padding = d2, dilation = d2, groups = nin, bias = False\<rparr> (data x))))\<rparr>
    \<and> ASPPModule_forward training m x = Inr \<lparr>shape = [n, nin, h, w],
            data = (let d = ActivOp LeakyReLU (BatchNorm2dOp nin training
                       (Conv2dOp \<lparr>in_channels = nin * 5, out_channels = nin, kernel_size = 1, stride = 1,
                  padding = 0, dilation = 1, groups = 1, bias = False\<rparr>
                         (CatOp 1 [data feat1, data feat2, data feat3, data feat4, data feat5])))
                    in if training then Dropout2dOp (1 / 10) d else d)\<rparr>"
proof -
  let ?p1 = "\<lparr>in_channels = nin, out_channels = nin, kernel_size = 1, stride = 1,
                  padding = 0, dilation = 1, groups = 1, bias = False\<rparr>"
  let ?bt = "\<lparr>in_channels = nin * 5, out_channels = nin, kernel_size = 1, stride = 1,
                  padding = 0, dilation = 1, groups = 1, bias = False\<rparr>"
  let ?f1 = "\<lparr>shape = [n, nin, h, w],
            data = InterpolateOp (Size h w) True (ActivOp LeakyReLU (BatchNorm2dOp nin training
              (Conv2dOp \<lparr>in_channels = nin, out_channels = nin, kernel_size = 1, stride = 1,
                  padding = 0, dilation = 1, groups = 1, bias = False\<rparr>
                (AdaptiveAvgPool2dOp 1 1 (data x)))))\<rparr>"
  let ?f2 = "\<lparr>shape = [n, nin, h, w],
            data = ActivOp LeakyReLU (BatchNorm2dOp nin training
              (Conv2dOp \<lparr>in_channels = nin, out_channels = nin, kernel_size = 1, stride = 1,
                  padding = 0, dilation = 1, groups = 1, bias = False\<rparr> (data x)))\<rparr>"
  let ?f3 = "\<lparr>shape = [n, nin, h, w],
            data = ActivOp LeakyReLU (BatchNorm2dOp nin training
              (Conv2dOp \<lparr>in_channels = nin, out_channels = nin, kernel_size = 1, stride = 1,
                  padding = 0, dilation = 1, groups = 1, bias = False\<rparr>
                (Conv2dOp \<lparr>in_channels = nin, out_channels = nin, kernel_size = 3, stride = 1,
                  padding = d0, dilation = d0, groups = nin, bias = False\<rparr> (data x))))\<rparr>"
  let ?f4 = "\<lparr>shape = [n, nin, h, w],
            data = ActivOp LeakyReLU (BatchNorm2dOp nin training
              (Conv2dOp \<lparr>in_channels = nin, out_channels = nin, kernel_size = 1, stride = 1,
                  padding = 0, dilation = 1, groups = 1, bias = False\<rparr>
                (Conv2dOp \<lparr>in_channels = nin, out_channels = nin, kernel_size = 3, stride = 1,
                  padding = d1, dilation = d1, groups = nin, bias = False\<rparr> (data x))))\<rparr>"
  let ?f5 = "\<lparr>shape = [n, nin, h, w],
            data = ActivOp LeakyReLU (BatchNorm2dOp nin training
              (Conv2dOp \<lparr>in_channels = nin, out_channels = nin, kernel_size = 1, stride = 1,
                  padding = 0, dilation = 1, groups = 1, bias = False\<rparr>
                (Conv2dOp \<lparr>in_channels = nin, out_channels = nin, kernel_size = 3, stride = 1,
                  padding = d2, dilation = d2, groups = nin, bias = False\<rparr> (data x))))\<rparr>"
  let ?pool = "\<lparr>shape = [n, nin, 1, 1], data = AdaptiveAvgPool2dOp 1 1 (data x)\<rparr>"
  let ?pooled = "\<lparr>shape = [n, nin, 1, 1],
                  data = ActivOp LeakyReLU (BatchNorm2dOp nin training (Conv2dOp ?p1 (data ?pool)))\<rparr>"
  let ?out = "\<lparr>shape = [n, nin * 5, h, w],
               data = CatOp 1 [data ?f1, data ?f2, data ?f3, data ?f4, data ?f5]\<rparr>"
  let ?bo = "\<lparr>shape = [n, nin, h, w],
              data = ActivOp LeakyReLU (BatchNorm2dOp nin training (Conv2dOp ?bt (data ?out)))\<rparr>"
  note m = init [unfolded ASPPModule_init_eq [OF pos(2)], simplified, symmetric]
  have bn1: "\<not> (training \<and> n * 1 * 1 = 1)"
    using bn by simp
  have bn2: "\<not> (training \<and> n * h * w = 1)"
    using bn pos by auto
  have pool: "AdaptiveAvgPool2d_call 1 1 x = Inr ?pool"
    using x pos by (simp add: AdaptiveAvgPool2d_call_def)
  have pooled: "forward training (Conv2DBNActiv (Sequential
                  [Conv2d ?p1, BatchNorm2d nin, Activ LeakyReLU])) ?pool = Inr ?pooled"
    by (rule conv1x1_same [OF _ _ _ bn1]) simp_all
  have c1: "forward training (ASPPModule.conv1 m) x = Inr ?pooled"
    unfolding m using pool pooled by simp
  have up: "interpolate_bilinear (Size h w) True ?pooled = Inr ?f1"
    using interpolate_size [of ?pooled n nin 1 1 h w True] pos by simp
  have b2: "forward training (ASPPModule.conv2 m) x = Inr ?f2"
    unfolding m using conv1x1_same [OF x pos(3) pos(4) bn2, of nin LeakyReLU] by simp
  have b3: "forward training (ASPPModule.conv3 m) x = Inr ?f3"
    unfolding m using atrous_sep_same [OF x pos(3) pos(4) pos(5) bn2, of nin LeakyReLU] by simp
  have b4: "forward training (ASPPModule.conv4 m) x = Inr ?f4"
    unfolding m using atrous_sep_same [OF x pos(3) pos(4) pos(6) bn2, of nin LeakyReLU] by simp
  have b5: "forward training (ASPPModule.conv5 m) x = Inr ?f5"
    unfolding m using atrous_sep_same [OF x pos(3) pos(4) pos(7) bn2, of nin LeakyReLU] by simp
  have ct: "cat [?f1, ?f2, ?f3, ?f4, ?f5] 1 = Inr ?out"
    by (rule cat_five) simp_all
  have bo: "forward training (Conv2DBNActiv (Sequential
                  [Conv2d ?bt, BatchNorm2d nin, Activ LeakyReLU])) ?out = Inr ?bo"
    by (rule conv1x1_same [OF _ pos(3) pos(4) bn2]) simp
  have bt: "forward training (ASPPModule.bottleneck m) ?out =
      Inr \<lparr>shape = [n, nin, h, w],
           data = (let d = data ?bo in if training then Dropout2dOp (1 / 10) d else d)\<rparr>"
    unfolding m using bo by (simp add: Dropout2d_call_def Let_def)
  have fw: "ASPPModule_forward training m x =
      Inr \<lparr>shape = [n, nin, h, w],
           data = (let d = data ?bo in if training then Dropout2dOp (1 / 10) d else d)\<rparr>"
    unfolding ASPPModule_forward_def x list.case c1 ebind_Inr up b2 b3 b4 b5 ct by (rule bt)
  show ?thesis
    using pool c1 up b2 b3 b4 b5 fw by simp
qed

text \<open>
  Claim C4, as amended.  Take a non-empty input with \<open>nin\<close> channels and positive dilation
  rates.  In training mode with a batch of one sample ASPPModule raises \<open>ValueError\<close>: the
  batch normalisation of the pooled branch sees a single value per channel.  In inference
  mode, and in training mode with a larger batch, it computes five branches from the same
  input: (a) the average pool to 1 x 1, a 1 x 1 convolution block on the pooled map of
  shape \<open>[n, nin, 1, 1]\<close>, and the bilinear upsampling with aligned corners back to the
  height and width of the input; (b) a 1 x 1 convolution block; (c) to (e) three separable
  convolution blocks with a 3 x 3 kernel whose padding and dilation are the three rates.
  Each branch has \<open>nin\<close> channels and the height and width of the input.  The result is the
  1 x 1 convolution block from \<open>5 * nin\<close> to \<open>nin\<close> channels applied to the concatenation
  of the five branches along the channel axis, followed by dropout of rate 0.1 (in
  training mode); it has the shape of the input.  The default rates are 4, 8 and 16.
\<close>

theorem ASPPModule_five_branches:
  assumes init: "ASPPModule_init nin [d0, d1, d2] = Inr m"
    and x: "shape x = [n, nin, h, w]"
    and pos: "0 < n" "0 < nin" "0 < h" "0 < w" "0 < d0" "0 < d1" "0 < d2"
  shows "(training \<and> n = 1 \<longrightarrow> ASPPModule_forward training m x = Inl ValueError)
    \<and> (\<not> (training \<and> n = 1) \<longrightarrow>
        (\<exists>pooled feat1 feat2 feat3 feat4 feat5.
      AdaptiveAvgPool2d_call 1 1 x =
        Inr \<lparr>shape = [n, nin, 1, 1], data = AdaptiveAvgPool2dOp 1 1 (data x)\<rparr>
    \<and> forward training (ASPPModule.conv1 m) x = Inr pooled
    \<and> pooled = \<lparr>shape = [n, nin, 1, 1],
            data = ActivOp LeakyReLU (BatchNorm2dOp nin training
              (Conv2dOp \<lparr>in_channels = nin, out_channels = nin, kernel_size = 1, stride = 1,
                  padding = 0, dilation = 1, groups = 1, bias = False\<rparr>
                (AdaptiveAvgPool2dOp 1 1 (data x))))\<rparr>
    \<and> interpolate_bilinear (Size h w) True pooled = Inr feat1
    \<and> feat1 = \<lparr>shape = [n, nin, h, w],
            data = InterpolateOp (Size h w) True (ActivOp LeakyReLU (BatchNorm2dOp nin training
              (Conv2dOp \<lparr>in_channels = nin, out_channels = nin, kernel_size = 1, stride = 1,
                  padding = 0, dilation = 1, groups = 1, bias = False\<rparr>
                (AdaptiveAvgPool2dOp 1 1 (data x)))))\<rparr>
    \<and> forward training (ASPPModule.conv2 m) x = Inr feat2
    \<and> feat2 = \<lparr>shape = [n, nin, h, w],
            data = ActivOp LeakyReLU (BatchNorm2dOp nin training
              (Conv2dOp \<lparr>in_channels = nin, out_channels = nin, kernel_size = 1, stride = 1,
                  padding = 0, dilation = 1, groups = 1, bias = False\<rparr> (data x)))\<rparr>
    \<and> forward training (ASPPModule.conv3 m) x = Inr feat3
    \<and> feat3 = \<lparr>shape = [n, nin, h, w],
            data = ActivOp LeakyReLU (BatchNorm2dOp nin training
              (Conv2dOp \<lparr>in_channels = nin, out_channels = nin, kernel_size = 1, stride = 1,
                  padding = 0, dilation = 1, groups = 1, bias = False\<rparr>
                (Conv2dOp \<lparr>in_channels = nin, out_channels = nin, kernel_size = 3, stride = 1,
                  padding = d0, dilation = d0, groups = nin, bias = False\<rparr> (data x))))\<rparr>
    \<and> forward training (ASPPModule.conv4 m) x = Inr feat4
    \<and> feat4 = \<lparr>shape = [n, nin, h, w],
            data = ActivOp LeakyReLU (BatchNorm2dOp nin training
              (Conv2dOp \<lparr>in_channels = nin, out_channels = nin, kernel_size = 1, stride = 1,
                  padding = 0, dilation = 1, groups = 1, bias = False\<rparr>
                (Conv2dOp \<lparr>in_channels = nin, out_channels = nin, kernel_size = 3, stride = 1,
                  padding = d1, dilation = d1, groups = nin, bias = False\<rparr> (data x))))\<rparr>
    \<and> forward training (ASPPModule.conv5 m) x = Inr feat5
    \<and> feat5 = \<lparr>shape = [n, nin, h, w],
            data = ActivOp LeakyReLU (BatchNorm2dOp nin training
              (Conv2dOp \<lparr>in_channels = nin, out_channels = nin, kernel_size = 1, stride = 1,
                  padding = 0, dilation = 1, groups = 1, bias = False\<rparr>
                (Conv2dOp \<lparr>in_channels = nin, out_channels = nin, kernel_size = 3, stride = 1,
                  padding = d2, dilation = d2, groups = nin, bias = False\<rparr> (data x))))\<rparr>
    \<and> ASPPModule_forward training m x = Inr \<lparr>shape = [n, nin, h, w],
            data = (let d = ActivOp LeakyReLU (BatchNorm2dOp nin training
                       (Conv2dOp \<lparr>in_channels = nin * 5, out_channels = nin, kernel_size = 1, stride = 1,
                  padding = 0, dilation = 1, groups = 1, bias = False\<rparr>
                         (CatOp 1 [data feat1, data feat2, data feat3, data feat4, data feat5])))
                    in if training then Dropout2dOp (1 / 10) d else d)\<rparr>))
    \<and> ASPPModule_init_defaults nin = ASPPModule_init nin [4, 8, 16]"
proof (intro conjI impI)
  assume "training \<and> n = 1"
  then show "ASPPModule_forward training m x = Inl ValueError"
    using ASPPModule_training_single_sample_raises [OF init _ pos(2) pos(3) pos(4), of x] x
    by simp
next
  assume "\<not> (training \<and> n = 1)"
  then show "\<exists>pooled feat1 feat2 feat3 feat4 feat5.
      AdaptiveAvgPool2d_call 1 1 x =
        Inr \<lparr>shape = [n, nin, 1, 1], data = AdaptiveAvgPool2dOp 1 1 (data x)\<rparr>
    \<and> forward training (ASPPModule.conv1 m) x = Inr pooled
    \<and> pooled = \<lparr>shape = [n, nin, 1, 1],
            data = ActivOp LeakyReLU (BatchNorm2dOp nin training
              (Conv2dOp \<lparr>in_channels = nin, out_channels = nin, kernel_size = 1, stride = 1,
                  padding = 0, dilation = 1, groups = 1, bias = False\<rparr>
                (AdaptiveAvgPool2dOp 1 1 (data x))))\<rparr>
    \<and> interpolate_bilinear (Size h w) True pooled = Inr feat1
    \<and> feat1 = \<lparr>shape = [n, nin, h, w],
            data = InterpolateOp (Size h w) True (ActivOp LeakyReLU (BatchNorm2dOp nin training
              (Conv2dOp \<lparr>in_channels = nin, out_channels = nin, kernel_size = 1, stride = 1,
                  padding = 0, dilation = 1, groups = 1, bias = False\<rparr>
                (AdaptiveAvgPool2dOp 1 1 (data x)))))\<rparr>
    \<and> forward training (ASPPModule.conv2 m) x = Inr feat2
    \<and> feat2 = \<lparr>shape = [n, nin, h, w],
            data = ActivOp LeakyReLU (BatchNorm2dOp nin training
              (Conv2dOp \<lparr>in_channels = nin, out_channels = nin, kernel_size = 1, stride = 1,
                  padding = 0, dilation = 1, groups = 1, bias = False\<rparr> (data x)))\<rparr>
    \<and> forward training (ASPPModule.conv3 m) x = Inr feat3
    \<and> feat3 = \<lparr>shape = [n, nin, h, w],
            data = ActivOp LeakyReLU (BatchNorm2dOp nin training
              (Conv2dOp \<lparr>in_channels = nin, out_channels = nin, kernel_size = 1, stride = 1,
                  padding = 0, dilation = 1, groups = 1, bias = False\<rparr>
                (Conv2dOp \<lparr>in_channels = nin, out_channels = nin, kernel_size = 3, stride = 1,
                  padding = d0, dilation = d0, groups = nin, bias = False\<rparr> (data x))))\<rparr>
    \<and> forward training (ASPPModule.conv4 m) x = Inr feat4
    \<and> feat4 = \<lparr>shape = [n, nin, h, w],
            data = ActivOp LeakyReLU (BatchNorm2dOp nin training
              (Conv2dOp \<lparr>in_channels = nin, out_channels = nin, kernel_size = 1, stride = 1,
                  padding = 0, dilation = 1, groups = 1, bias = False\<rparr>
                (Conv2dOp \<lparr>in_channels = nin, out_channels = nin, kernel_size = 3, stride = 1,
                  padding = d1, dilation = d1, groups = nin, bias = False\<rparr> (data x))))\<rparr>
    \<and> forward training (ASPPModule.conv5 m) x = Inr feat5
    \<and> feat5 = \<lparr>shape = [n, nin, h, w],
            data = ActivOp LeakyReLU (BatchNorm2dOp nin training
              (Conv2dOp \<lparr>in_channels = nin, out_channels = nin, kernel_size = 1, stride = 1,
                  padding = 0, dilation = 1, groups = 1, bias = False\<rparr>
                (Conv2dOp \<lparr>in_channels = nin, out_channels = nin, kernel_size = 3, stride = 1,
                  padding = d2, dilation = d2, groups = nin, bias = False\<rparr> (data x))))\<rparr>
    \<and> ASPPModule_forward training m x = Inr \<lparr>shape = [n, nin, h, w],
            data = (let d = ActivOp LeakyReLU (BatchNorm2dOp nin training
                       (Conv2dOp \<lparr>in_channels = nin * 5, out_channels = nin, kernel_size = 1, stride = 1,
                  padding = 0, dilation = 1, groups = 1, bias = False\<rparr>
                         (CatOp 1 [data feat1, data feat2, data feat3, data feat4, data feat5])))
                    in if training then Dropout2dOp (1 / 10) d else d)\<rparr>"
    by (rule ASPPModule_branches_valid [OF init x pos])
next
  show "ASPPModule_init_defaults nin = ASPPModule_init nin [4, 8, 16]"
    by (simp add: ASPPModule_init_defaults_def)
qed

theorem ASPPModule_five_branches_witness:
  "\<exists>m. ASPPModule_init_defaults 2 = Inr m
     \<and> (\<exists>p y. forward True (ASPPModule.conv1 m) \<lparr>shape = [2, 2, 8, 8], data = Given 0\<rparr> = Inr p
            \<and> shape p = [2, 2, 1, 1]
            \<and> ASPPModule_forward True m \<lparr>shape = [2, 2, 8, 8], data = Given 0\<rparr> = Inr y
            \<and> shape y = [2, 2, 8, 8])
     \<and> (\<exists>p y. forward False (ASPPModule.conv1 m) \<lparr>shape = [1, 2, 8, 8], data = Given 0\<rparr> = Inr p
            \<and> shape p = [1, 2, 1, 1]
            \<and> ASPPModule_forward False m \<lparr>shape = [1, 2, 8, 8], data = Given 0\<rparr> = Inr y
            \<and> shape y = [1, 2, 8, 8])
     \<and> ASPPModule_forward True m \<lparr>shape = [1, 2, 8, 8], data = Given 0\<rparr> = Inl ValueError"
proof -
  obtain m where h: "ASPPModule_init 2 [4, 8, 16] = Inr m"
    using ASPPModule_init_eq [of 2 4 8 16] by simp
  have x: "shape \<lparr>shape = [2, 2, 8, 8], data = Given 0\<rparr> = [2, 2, 8, 8]"
    and x': "shape \<lparr>shape = [1, 2, 8, 8], data = Given 0\<rparr> = [1, 2, 8, 8]"
    by simp_all
  have p: "(0::nat) < 2" "(0::nat) < 2" "(0::nat) < 8" "(0::nat) < 8"
    "(0::nat) < 4" "(0::nat) < 8" "(0::nat) < 16"
    and p': "(0::nat) < 1" "(0::nat) < 2" "(0::nat) < 8" "(0::nat) < 8"
    "(0::nat) < 4" "(0::nat) < 8" "(0::nat) < 16"
    by simp_all
  note t = ASPPModule_five_branches [OF h x p, where training = True]
  note t' = ASPPModule_five_branches [OF h x' p', where training = False]
  note t'' = ASPPModule_five_branches [OF h x' p', where training = True]
  have b: "\<not> (True \<and> (2::nat) = 1)" and b': "\<not> (False \<and> (1::nat) = 1)"
    and b'': "True \<and> (1::nat) = 1"
    by simp_all
  have 1: "\<exists>p y. forward True (ASPPModule.conv1 m) \<lparr>shape = [2, 2, 8, 8], data = Given 0\<rparr> = Inr p
            \<and> shape p = [2, 2, 1, 1]
            \<and> ASPPModule_forward True m \<lparr>shape = [2, 2, 8, 8], data = Given 0\<rparr> = Inr y
            \<and> shape y = [2, 2, 8, 8]"
    using t [THEN conjunct2, THEN conjunct1, rule_format, OF b] by auto
  have 2: "\<exists>p y. forward False (ASPPModule.conv1 m) \<lparr>shape = [1, 2, 8, 8], data = Given 0\<rparr> = Inr p
            \<and> shape p = [1, 2, 1, 1]
            \<and> ASPPModule_forward False m \<lparr>shape = [1, 2, 8, 8], data = Given 0\<rparr> = Inr y
            \<and> shape y = [1, 2, 8, 8]"
    using t' [THEN conjunct2, THEN conjunct1, rule_format, OF b'] by auto
  have 3: "ASPPModule_forward True m \<lparr>shape = [1, 2, 8, 8], data = Given 0\<rparr> = Inl ValueError"
    using t'' [THEN conjunct1, rule_format, OF b''] .
  have 4: "ASPPModule_init_defaults 2 = Inr m"
    using t [THEN conjunct2, THEN conjunct2] h by simp
  show ?thesis
    using 1 2 3 4 by blast
qed

text \<open>
  Claim C4 as first stated speaks of every input with \<open>nin\<close> channels.  It fails in
  training mode, the mode of a freshly constructed module, on a batch of one sample:
  \<^verbatim>\<open>ASPPModule(2)\<close> called on a tensor of shape 1 x 2 x 8 x 8 raises \<open>ValueError\<close> and returns
  no tensor.
\<close>

theorem ASPPModule_training_batch_one_counterexample:
  "ASPPModule_run True 2 [4, 8, 16] \<lparr>shape = [1, 2, 8, 8], data = Given 0\<rparr> = Inl ValueError"
proof -
  obtain m where h: "ASPPModule_init 2 [4, 8, 16] = Inr m"
    using ASPPModule_init_eq [of 2 4 8 16] by simp
  have "ASPPModule_forward True m \<lparr>shape = [1, 2, 8, 8], data = Given 0\<rparr> = Inl ValueError"
    by (rule ASPPModule_training_single_sample_raises [OF h, where h = 8 and w = 8])
      simp_all
  then show ?thesis
    unfolding ASPPModule_run_def h ebind_Inr .
qed

section \<open>CBAM\<close>

lemma CBAM_init_raises:
  assumes "0 < ratio" and "ratio \<le> ch"
  shows "CBAM_init ch ratio = Inl TypeError"
  using assms by (simp add: CBAM_init_def Linear_init_def Conv2d_init_def)

text \<open>
  Claim C3.  The claim expects CBAM to return a tensor of the shape of its input.  The code
  does not get there: constructing \<^verbatim>\<open>CBAM(32, 16)\<close> and calling it on a tensor of shape
  1 x 32 x 8 x 8 ends in \<open>TypeError\<close>, in inference and in training mode, because the
  constructor hands \<open>None\<close> to \<^verbatim>\<open>nn.Conv2d\<close> as its input-channel count.
\<close>

theorem CBAM_run_raises:
  "CBAM_run False 32 16 \<lparr>shape = [1, 32, 8, 8], data = Given 0\<rparr> = Inl TypeError
   \<and> CBAM_run True 32 16 \<lparr>shape = [1, 32, 8, 8], data = Given 0\<rparr> = Inl TypeError"
  by (simp add: CBAM_run_def CBAM_init_raises)

lemma CBAM_call_raises:
  "CBAM_call training m x = Inl (if length (shape x) < 4 then IndexError else TypeError)"
  by (auto simp: CBAM_call_def mean_def max_dims_def)

text \<open>
  Claim C5.  The claim expects the forward pass to pool, gate the channels, pool again and
  gate the pixels with a convolution bound to 2 input channels.  In the code the
  convolution is constructed with \<open>None\<close> input channels, which raises; and even on a
  module whose convolution has 2 input channels, the forward pass raises \<open>TypeError\<close> at
  \<^verbatim>\<open>x.max(dim=(2, 3))\<close>, the global max pooling, before any attention is computed.
\<close>

theorem CBAM_forward_raises_at_max:
  "CBAM_init 32 16 = Inl TypeError
   \<and> CBAM_call False
       \<lparr>sqz = \<lparr>in_features = 32, out_features = 2\<rparr>,
        ext = \<lparr>in_features = 2, out_features = 32\<rparr>,
        CBAM.conv = Conv2d \<lparr>in_channels = 2, out_channels = 1, kernel_size = 3, stride = 1,
                            padding = 1, dilation = 1, groups = 1, bias = False\<rparr>\<rparr>
       \<lparr>shape = [1, 32, 8, 8], data = Given 0\<rparr> = Inl TypeError"
  by (simp add: CBAM_init_raises CBAM_call_raises)

end
